theory Spec2Isabelle
  imports Main "HOL-Library.Word" "HOL-Library.Monad_Syntax"
begin

unbundle bit_operations_syntax

section \<open>Go values shared by the packages\<close>

text \<open>
  A Go \<open>error\<close> is either the sentinel \<open>sql.ErrNoRows\<close>, which the drivers compare by
  identity, or a value carrying a message (\<open>errors.New\<close>, \<open>fmt.Errorf\<close>, the errors of
  \<open>time.Parse\<close> and of \<open>database/sql\<close>'s \<open>Scan\<close>, the errors of the MySQL server). A nil
  error is \<open>None\<close>.
\<close>

datatype error = ErrNoRows | errorString string

definition errors_New :: "string \<Rightarrow> error" where
  "errors_New text = errorString text"

fun Error :: "error \<Rightarrow> string" where
  "Error ErrNoRows = ''sql: no rows in result set''"
| "Error (errorString s) = s"

text \<open>A Go string is a sequence of bytes; \<open>[]byte(s)\<close> reads them.\<close>

definition bytes_of :: "string \<Rightarrow> 8 word list" where
  "bytes_of s = map of_char s"

text \<open>
  The comma-ok lookup \<open>v, ok := m[k]\<close> on a \<open>map[string]string\<close>: a missing key (also in a
  nil map) gives the zero value and \<open>false\<close>.
\<close>

definition lookup_ok :: "(string \<rightharpoonup> string) \<Rightarrow> string \<Rightarrow> string \<times> bool" where
  "lookup_ok m k = (case m k of None \<Rightarrow> ('''', False) | Some v \<Rightarrow> (v, True))"

section \<open>crypto/sha256 and the \<open>%x\<close> verb\<close>

text \<open>
  \<open>sha256.Sum256\<close> as the standard library's generic block function computes it
  (FIPS 180-4), on 32-bit words that wrap.
\<close>

definition K256 :: "32 word list" where
  "K256 =
    [1116352408, 1899447441, 3049323471, 3921009573, 961987163, 1508970993, 2453635748,
     2870763221, 3624381080, 310598401, 607225278, 1426881987, 1925078388, 2162078206,
     2614888103, 3248222580, 3835390401, 4022224774, 264347078, 604807628, 770255983,
     1249150122, 1555081692, 1996064986, 2554220882, 2821834349, 2952996808, 3210313671,
     3336571891, 3584528711, 113926993, 338241895, 666307205, 773529912, 1294757372,
     1396182291, 1695183700, 1986661051, 2177026350, 2456956037, 2730485921, 2820302411,
     3259730800, 3345764771, 3516065817, 3600352804, 4094571909, 275423344, 430227734,
     506948616, 659060556, 883997877, 958139571, 1322822218, 1537002063, 1747873779,
     1955562222, 2024104815, 2227730452, 2361852424, 2428436474, 2756734187, 3204031479,
     3329325298]"

type_synonym digest = "32 word \<times> 32 word \<times> 32 word \<times> 32 word \<times> 32 word \<times> 32 word \<times> 32 word \<times> 32 word"

definition init256 :: digest where
  "init256 =
    (1779033703, 3144134277, 1013904242, 2773480762, 1359893119, 2600822924, 528734635,
     1541459225)"

definition rotr32 :: "nat \<Rightarrow> 32 word \<Rightarrow> 32 word" where
  "rotr32 n x = drop_bit n x OR push_bit (32 - n) x"

definition be32 :: "8 word \<Rightarrow> 8 word \<Rightarrow> 8 word \<Rightarrow> 8 word \<Rightarrow> 32 word" where
  "be32 a b c d =
     push_bit 24 (ucast a) OR push_bit 16 (ucast b) OR push_bit 8 (ucast c) OR ucast d"

fun block_words :: "8 word list \<Rightarrow> 32 word list" where
  "block_words (a # b # c # d # p) = be32 a b c d # block_words p"
| "block_words _ = []"

text \<open>The message schedule: \<open>n\<close> more words after the block's own sixteen.\<close>

fun schedule :: "nat \<Rightarrow> 32 word list \<Rightarrow> 32 word list" where
  "schedule 0 w = w"
| "schedule (Suc n) w =
     (let i = length w;
          v1 = w ! (i - 2);
          t1 = rotr32 17 v1 XOR rotr32 19 v1 XOR drop_bit 10 v1;
          v2 = w ! (i - 15);
          t2 = rotr32 7 v2 XOR rotr32 18 v2 XOR drop_bit 3 v2
      in schedule n (w @ [t1 + w ! (i - 7) + t2 + w ! (i - 16)]))"

fun round256 :: "digest \<Rightarrow> 32 word \<times> 32 word \<Rightarrow> digest" where
  "round256 (a, b, c, d, e, f, g, h) (k, w) =
     (let t1 = h + (rotr32 6 e XOR rotr32 11 e XOR rotr32 25 e)
                 + ((e AND f) XOR (NOT e AND g)) + k + w;
          t2 = (rotr32 2 a XOR rotr32 13 a XOR rotr32 22 a)
                 + ((a AND b) XOR (a AND c) XOR (b AND c))
      in (t1 + t2, a, b, c, d + t1, e, f, g))"

fun add256 :: "digest \<Rightarrow> digest \<Rightarrow> digest" where
  "add256 (h0, h1, h2, h3, h4, h5, h6, h7) (a, b, c, d, e, f, g, h) =
     (h0 + a, h1 + b, h2 + c, h3 + d, h4 + e, h5 + f, h6 + g, h7 + h)"

definition block256 :: "digest \<Rightarrow> 8 word list \<Rightarrow> digest" where
  "block256 dig p = add256 dig (foldl round256 dig (zip K256 (schedule 48 (block_words p))))"

fun blocks256 :: "nat \<Rightarrow> digest \<Rightarrow> 8 word list \<Rightarrow> digest" where
  "blocks256 0 dig p = dig"
| "blocks256 (Suc n) dig p = blocks256 n (block256 dig (take 64 p)) (drop 64 p)"

definition be_bytes32 :: "32 word \<Rightarrow> 8 word list" where
  "be_bytes32 x = [ucast (drop_bit 24 x), ucast (drop_bit 16 x), ucast (drop_bit 8 x), ucast x]"

definition be_bytes64 :: "64 word \<Rightarrow> 8 word list" where
  "be_bytes64 x = map (\<lambda>i. ucast (drop_bit (8 * (7 - i)) x)) [0 ..< 8]"

text \<open>
  The padding of \<open>checkSum\<close>: a byte 0x80, zeros up to 56 modulo 64, and the length in bits
  as a 64-bit big-endian number.
\<close>

definition pad256 :: "8 word list \<Rightarrow> 8 word list" where
  "pad256 msg =
     (let len = length msg;
          z = (if len mod 64 < 56 then 56 - len mod 64 else 64 + 56 - len mod 64)
      in msg @ 0x80 # replicate (z - 1) 0 @ be_bytes64 (push_bit 3 (of_nat len)))"

fun digest_bytes :: "digest \<Rightarrow> 8 word list" where
  "digest_bytes (h0, h1, h2, h3, h4, h5, h6, h7) =
     concat (map be_bytes32 [h0, h1, h2, h3, h4, h5, h6, h7])"

definition sha256_Sum256 :: "8 word list \<Rightarrow> 8 word list" where
  "sha256_Sum256 data =
     (let p = pad256 data in digest_bytes (blocks256 (length p div 64) init256 p))"

text \<open>\<open>fmt.Sprintf("%x", b)\<close> on a byte array: two lower-case hexadecimal digits a byte.\<close>

definition hex_digit :: "nat \<Rightarrow> char" where
  "hex_digit n = ''0123456789abcdef'' ! (n mod 16)"

definition Sprintf_x :: "8 word list \<Rightarrow> string" where
  "Sprintf_x b = concat (map (\<lambda>x. [hex_digit (unat x div 16), hex_digit (unat x mod 16)]) b)"

section \<open>The debug auth provider\<close>

text \<open>
  \<open>auth.Response\<close> as the handlers read it: an identity and a context of type
  \<open>interface{}\<close>, here nil (\<open>None\<close>) or a provider's value kept as text.
\<close>

record Response =
  Ident :: string
  Ctx :: "string option"

record DebugAuthProvider =
  cfg :: "string \<rightharpoonup> string"
  creds :: "string \<rightharpoonup> string"

definition Connect :: "DebugAuthProvider \<Rightarrow> (string \<rightharpoonup> string) \<Rightarrow> DebugAuthProvider \<times> error option" where
  "Connect d options = (d\<lparr>cfg := options, creds := [''test'' \<mapsto> ''passwd'']\<rparr>, None)"

definition Authenticate :: "DebugAuthProvider \<Rightarrow> string \<Rightarrow> string \<Rightarrow> Response option \<times> error option" where
  "Authenticate d username password =
     (let (pw, ok) = lookup_ok (creds d) username in
      if ok \<and> pw = password then
        (let ident = Sprintf_x (sha256_Sum256 (bytes_of (username @ password)))
         in (Some \<lparr>Ident = ident, Ctx = None\<rparr>, None))
      else (None, Some (errors_New ''unauthorized'')))"

section \<open>package time, for the layout \<open>timeFormat\<close>\<close>

text \<open>
  A \<open>time.Time\<close> is an instant: the nanoseconds since 0001-01-01 00:00:00 UTC, so that
  the zero value \<open>time.Time{}\<close> is 0 and \<open>t.Add(d)\<close> is \<open>t + d\<close>.
\<close>

type_synonym time = int

definition time_zero :: time where
  "time_zero = 0"

definition timeFormat :: string where
  "timeFormat = ''2006-01-02 15:04:05''"

definition is_digit :: "char \<Rightarrow> bool" where
  "is_digit c = (48 \<le> (of_char c :: nat) \<and> (of_char c :: nat) \<le> 57)"

definition digit_val :: "char \<Rightarrow> nat" where
  "digit_val c = of_char c - 48"

definition isDigit :: "string \<Rightarrow> nat \<Rightarrow> bool" where
  "isDigit s i = (if length s \<le> i then False else is_digit (s ! i))"

text \<open>\<open>atoi\<close> on a text that does not start with a sign: digits only, and at least one.\<close>

definition atoi :: "string \<Rightarrow> nat option" where
  "atoi s = (if s \<noteq> [] \<and> list_all is_digit s
             then Some (foldl (\<lambda>x c. 10 * x + digit_val c) 0 s) else None)"

text \<open>\<open>getnum\<close>: one or two digits; exactly two when \<open>fixed\<close>.\<close>

definition getnum :: "string \<Rightarrow> bool \<Rightarrow> (nat \<times> string) option" where
  "getnum s fixed =
     (if \<not> isDigit s 0 then None
      else if \<not> isDigit s 1 then (if fixed then None else Some (digit_val (s ! 0), drop 1 s))
      else Some (digit_val (s ! 0) * 10 + digit_val (s ! 1), drop 2 s))"

fun cutspace :: "string \<Rightarrow> string" where
  "cutspace [] = []"
| "cutspace (c # s) = (if c = CHR '' '' then cutspace s else c # s)"

text \<open>
  \<open>skip\<close> for a prefix of one character, which is all this layout has between its
  fields: a space stands for any run of spaces, another character for itself.
\<close>

definition skip :: "string \<Rightarrow> char \<Rightarrow> string option" where
  "skip v p =
     (if p = CHR '' '' then
        (case v of
           [] \<Rightarrow> Some []
         | c # _ \<Rightarrow> if c = CHR '' '' then Some (cutspace v) else None)
      else
        (case v of
           [] \<Rightarrow> None
         | c # rest \<Rightarrow> if c = p then Some rest else None))"

definition commaOrPeriod :: "char \<Rightarrow> bool" where
  "commaOrPeriod c = (c = CHR ''.'' \<or> c = CHR '','')"

text \<open>
  A fractional second in the value where the layout has none: the digits after the
  separator, of which nine count, scaled to nanoseconds. The result is the nanoseconds and
  the rest of the value.
\<close>

definition fraction :: "string \<Rightarrow> nat \<times> string" where
  "fraction v =
     (if 2 \<le> length v \<and> commaOrPeriod (v ! 0) \<and> isDigit v 1 then
        (let n = 1 + length (takeWhile is_digit (drop 1 v));
             nbytes = min n 10;
             ns = foldl (\<lambda>x c. 10 * x + digit_val c) 0 (take (nbytes - 1) (drop 1 v))
         in (ns * 10 ^ (10 - nbytes), drop n v))
      else (0, v))"

definition isLeap :: "nat \<Rightarrow> bool" where
  "isLeap year = (year mod 4 = 0 \<and> (year mod 100 \<noteq> 0 \<or> year mod 400 = 0))"

definition daysBefore :: "nat list" where
  "daysBefore = [0, 31, 59, 90, 120, 151, 181, 212, 243, 273, 304, 334, 365]"

definition daysIn :: "nat \<Rightarrow> nat \<Rightarrow> nat" where
  "daysIn month year =
     (if month = 2 \<and> isLeap year then 29 else daysBefore ! month - daysBefore ! (month - 1))"

text \<open>\<open>time.Date\<close> in UTC on fields that are in range.\<close>

definition Date :: "nat \<Rightarrow> nat \<Rightarrow> nat \<Rightarrow> nat \<Rightarrow> nat \<Rightarrow> nat \<Rightarrow> nat \<Rightarrow> time" where
  "Date year month day hour minute sec nsec =
     (let y = int year - 1;
          d = 365 * y + y div 4 - y div 100 + y div 400
              + int (daysBefore ! (month - 1)) + (if isLeap year \<and> 2 < month then 1 else 0)
              + (int day - 1)
      in (((d * 24 + int hour) * 60 + int minute) * 60 + int sec) * 1000000000 + int nsec)"

text \<open>
  The fields \<open>time.Parse(timeFormat, value)\<close> reads, in the layout's order: a year of four
  digits, a month and a day of two, an hour of one or two, a minute and a second of two,
  each checked against its range, then an optional fraction, and nothing after it.
\<close>

definition require :: "bool \<Rightarrow> unit option" where
  "require b = (if b then Some () else None)"

definition parse_fields :: "string \<Rightarrow> (nat \<times> nat \<times> nat \<times> nat \<times> nat \<times> nat \<times> nat) option" where
  "parse_fields v0 = do {
     require (\<not> (length v0 < 4 \<or> \<not> isDigit v0 0));
     year \<leftarrow> atoi (take 4 v0);
     v1 \<leftarrow> skip (drop 4 v0) (CHR ''-'');
     (month, v2) \<leftarrow> getnum v1 True;
     require (\<not> (month \<le> 0 \<or> 12 < month));
     v3 \<leftarrow> skip v2 (CHR ''-'');
     (day, v4) \<leftarrow> getnum v3 True;
     v5 \<leftarrow> skip v4 (CHR '' '');
     (hour, v6) \<leftarrow> getnum v5 False;
     require (\<not> 24 \<le> hour);
     v7 \<leftarrow> skip v6 (CHR '':'');
     (minute, v8) \<leftarrow> getnum v7 True;
     require (\<not> 60 \<le> minute);
     v9 \<leftarrow> skip v8 (CHR '':'');
     (sec, v10) \<leftarrow> getnum v9 True;
     require (\<not> 60 \<le> sec);
     (nsec, v11) \<leftarrow> Some (fraction v10);
     require (v11 = []);
     require (\<not> (day < 1 \<or> daysIn month year < day));
     Some (year, month, day, hour, minute, sec, nsec)
   }"

definition newParseError :: "string \<Rightarrow> error" where
  "newParseError v = errorString (''parsing time '' @ v @ '' as '' @ timeFormat)"

text \<open>\<open>time.Parse(timeFormat, value)\<close>: on an error the time returned is the zero time.\<close>

definition time_Parse :: "string \<Rightarrow> time \<times> error option" where
  "time_Parse v =
     (case parse_fields v of
        None \<Rightarrow> (time_zero, Some (newParseError v))
      | Some (year, month, day, hour, minute, sec, nsec) \<Rightarrow>
          (Date year month day hour minute sec nsec, None))"

text \<open>
  The conversion \<open>string(i)\<close> of an integer: the UTF-8 encoding of the code point \<open>i\<close>,
  and of U+FFFD when \<open>i\<close> is not a valid code point.
\<close>

definition string_of_int64 :: "int \<Rightarrow> string" where
  "string_of_int64 i =
     (let r = (if i < 0 \<or> 0x10FFFF < i \<or> (0xD800 \<le> i \<and> i \<le> 0xDFFF) then 0xFFFD else nat i) in
      if r < 0x80 then [char_of r]
      else if r < 0x800 then [char_of (0xC0 + r div 64), char_of (0x80 + r mod 64)]
      else if r < 0x10000 then
        [char_of (0xE0 + r div 4096), char_of (0x80 + r div 64 mod 64), char_of (0x80 + r mod 64)]
      else
        [char_of (0xF0 + r div 262144), char_of (0x80 + r div 4096 mod 64),
         char_of (0x80 + r div 64 mod 64), char_of (0x80 + r mod 64)])"

text \<open>
  \<open>t.Format(timeFormat)\<close>, the text of a TIMESTAMP column: the civil date of the instant,
  each field padded with zeros to its width.
\<close>

definition appendInt :: "int \<Rightarrow> nat \<Rightarrow> string" where
  "appendInt x width =
     (let u = nat \<bar>x\<bar>;
          ds = map (\<lambda>k. ''0123456789'' ! (u div 10 ^ k mod 10))
                 (rev [0 ..< max width (length (takeWhile (\<lambda>k. 10 ^ k \<le> u) [0 ..< 20]))])
      in (if x < 0 then ''-'' else []) @ ds)"

definition civil :: "time \<Rightarrow> int \<times> nat \<times> nat \<times> nat \<times> nat \<times> nat" where
  "civil t =
     (let secs = t div 1000000000;
          d = secs div 86400;
          r = nat (secs mod 86400);
          n400 = d div 146097;
          d1 = d mod 146097;
          n100 = min 3 (d1 div 36524);
          d2 = d1 - 36524 * n100;
          n4 = d2 div 1461;
          d3 = d2 mod 1461;
          n1 = min 3 (d3 div 365);
          yday = nat (d3 - 365 * n1);
          year = 400 * n400 + 100 * n100 + 4 * n4 + n1 + 1;
          leap = (year mod 4 = 0 \<and> (year mod 100 \<noteq> 0 \<or> year mod 400 = 0));
          before = (\<lambda>k. daysBefore ! k + (if leap \<and> 2 \<le> k then 1 else 0));
          month = length (filter (\<lambda>k. before k \<le> yday) [1 ..< 12]) + 1
      in (year, month, yday - before (month - 1) + 1, r div 3600, r div 60 mod 60, r mod 60))"

definition time_Format :: "time \<Rightarrow> string" where
  "time_Format t =
     (case civil t of (year, month, day, hour, minute, sec) \<Rightarrow>
        appendInt year 4 @ ''-'' @ appendInt (int month) 2 @ ''-'' @ appendInt (int day) 2 @ '' ''
        @ appendInt (int hour) 2 @ '':'' @ appendInt (int minute) 2 @ '':'' @ appendInt (int sec) 2)"

section \<open>The plans of the database package\<close>

text \<open>
  Modelled from the spec: the structs \<open>database.VPlan\<close> and \<open>database.VPlanEntry\<close> are not
  among the sources; their fields are the ones \<open>GetVPlans\<close> scans into, which section 6
  lists, with integers for the keys and the block and text for the rest.
\<close>

record VPlanEntry =
  entry_ID :: int
  entry_VPlanID :: int
  entry_Class :: string
  entry_Time :: string
  entry_Messures :: string
  entry_Resposible :: string

record VPlan =
  ID :: int
  DateEdit :: time
  DateFor :: time
  Block :: int
  Header :: string
  Footer :: string
  Entries :: "VPlanEntry list"

text \<open>
  The columns of a row of \<open>selectVPlans\<close> as \<open>rows.Scan\<close> stores them: the two dates are
  scanned into \<open>database.Timestamp\<close> variables and parsed afterwards.
\<close>

record VPlanColumns =
  column_id :: int
  column_date_edit :: string
  column_date_for :: string
  column_block :: int
  column_header :: string
  column_footer :: string

text \<open>
  The three queries of \<open>GetVPlans\<close>. A query fails as a whole (\<open>Inl\<close>) or yields its rows;
  each row is what \<open>rows.Scan\<close> returns on it, an error or the scanned values.
\<close>

record VPlanQueries =
  selectVPlans_Query :: "time \<Rightarrow> error + (error + VPlanColumns) list"
  selectVPlanEntries_Query :: "int \<Rightarrow> error + (error + VPlanEntry) list"
  selectVPlanEntriesByClass_Query :: "int \<Rightarrow> string \<Rightarrow> error + (error + VPlanEntry) list"

section \<open>database/sql and the table \<open>apitoken\<close>\<close>

text \<open>
  What the driver hands to \<open>Scan\<close> for a column (\<open>driver.Value\<close>): an integer, bytes, a
  \<open>time.Time\<close> or NULL.
\<close>

datatype driver_Value = Int64 int | Bytes string | Time time | Null

text \<open>\<open>strconv.ParseInt(s, 10, 64)\<close>: an optional sign, decimal digits, the range of int64.\<close>

definition ParseInt :: "string \<Rightarrow> int option" where
  "ParseInt s =
     (let neg = (s \<noteq> [] \<and> hd s = CHR ''-'');
          ds = (if s \<noteq> [] \<and> (hd s = CHR ''-'' \<or> hd s = CHR ''+'') then tl s else s);
          n = foldl (\<lambda>x c. 10 * x + int (digit_val c)) 0 ds;
          v = (if neg then - n else n)
      in if ds = [] \<or> \<not> list_all is_digit ds then None
         else if v < - (2 ^ 63) \<or> 2 ^ 63 \<le> v then None
         else Some v)"

text \<open>
  \<open>convertAssign\<close> into a destination of type \<open>*int64\<close>: an integer is stored, bytes are
  read as a decimal number, a time and NULL are refused.
\<close>

fun convertAssign_int64 :: "driver_Value \<Rightarrow> error + int" where
  "convertAssign_int64 (Int64 n) = Inr n"
| "convertAssign_int64 (Bytes s) =
     (case ParseInt s of
        Some n \<Rightarrow> Inr n
      | None \<Rightarrow> Inl (errorString (''converting driver.Value type []uint8 to a int64: '' @ s)))"
| "convertAssign_int64 (Time t) =
     Inl (errorString ''converting driver.Value type time.Time to a int64'')"
| "convertAssign_int64 Null = Inl (errorString ''converting NULL to int64 is unsupported'')"

text \<open>
  A row of the table that \<open>Setup\<close> creates: the columns \<open>ident\<close>, \<open>token\<close> and \<open>expire\<close>
  (the key \<open>id\<close> is never read). No column is unique, so the table is a list of rows.
\<close>

record apitoken_row =
  col_ident :: string
  col_token :: string
  col_expire :: time

datatype statement =
  UPDATE_apitoken string time string
  | INSERT_apitoken string string time

text \<open>
  The driver's state behind \<open>s.db\<close> and \<open>s.stmts\<close>: the table, the statements executed so
  far, and what the connection and the server do. \<open>timestamp_value\<close> is the value \<open>Scan\<close> is
  handed for a stored timestamp (its text unless the connection parses times);
  \<open>clientFoundRows\<close> says whether an UPDATE counts the rows it matched or, as MySQL does
  unless asked, the rows it changed; \<open>TIME_TRUNCATE_FRACTIONAL\<close> is the SQL mode of that
  name, under which the server cuts a fraction of a second where it otherwise rounds; the
  failure fields are the errors a statement meets whatever its values (a connection that
  is gone, a lock that times out), nil when it reaches the table; \<open>queries\<close> are the answers
  to the queries for plans.
\<close>

record MySQL =
  apitoken :: "apitoken_row list"
  executed :: "statement list"
  timestamp_value :: "time \<Rightarrow> driver_Value"
  clientFoundRows :: bool
  TIME_TRUNCATE_FRACTIONAL :: bool
  update_failure :: "error option"
  rowsAffected_error :: "error option"
  insert_failure :: "error option"
  select_error :: "error option"
  queries :: VPlanQueries

definition timestamp_text :: "time \<Rightarrow> driver_Value" where
  "timestamp_text t = Bytes (time_Format t)"

text \<open>
  A \<open>time.Time\<close> argument of a prepared statement as the MySQL driver sends it: text in
  the layout \<open>2006-01-02 15:04:05.999999\<close>, in UTC since the DSN that \<open>Connect\<close> builds names
  no location, cut to microseconds, and \<open>0000-00-00\<close> for the zero time.
\<close>

definition datetime_literal :: "time \<Rightarrow> string" where
  "datetime_literal t =
     (if t = time_zero then ''0000-00-00''
      else
        (let microseconds = t div 1000 mod 1000000;
             digits = appendInt microseconds 6
         in time_Format t
            @ (if microseconds = 0 then []
               else ''.'' @ rev (dropWhile (\<lambda>c. c = CHR ''0'') (rev digits)))))"

text \<open>
  The column \<open>expire timestamp\<close> that \<open>Setup\<close> creates has no fractional digits: the server
  brings the microseconds it receives to a whole second, rounding half a second and more
  upwards unless it truncates. The value the column keeps for an argument:
\<close>

definition TIMESTAMP_round :: "MySQL \<Rightarrow> time \<Rightarrow> time" where
  "TIMESTAMP_round s t =
     (let microseconds = t div 1000;
          seconds = (if TIME_TRUNCATE_FRACTIONAL s then microseconds div 1000000
                     else (microseconds + 500000) div 1000000)
      in seconds * 1000000000)"

text \<open>
  A TIMESTAMP holds the seconds from 1970-01-01 00:00:01 UTC to 2038-01-19 03:14:07 UTC
  (the session's time zone is taken to be UTC, as the driver's text is).
\<close>

definition TIMESTAMP_min :: time where
  "TIMESTAMP_min = 62135596801000000000"

definition TIMESTAMP_max :: time where
  "TIMESTAMP_max = 64283080447000000000"

definition TIMESTAMP_range :: "time \<Rightarrow> bool" where
  "TIMESTAMP_range v = (TIMESTAMP_min \<le> v \<and> v \<le> TIMESTAMP_max)"

text \<open>
  In strict SQL mode, the server's default, a statement that would store a value outside
  that range is refused with error 1292, which the driver returns with this text.
\<close>

definition Incorrect_datetime_value :: "time \<Rightarrow> error" where
  "Incorrect_datetime_value t =
     errorString (''Error 1292: Incorrect datetime value: '' @ [CHR 0x27] @ datetime_literal t
                  @ [CHR 0x27] @ '' for column '' @ [CHR 0x27] @ ''expire'' @ [CHR 0x27]
                  @ '' at row 1'')"

text \<open>
  The error of the UPDATE for an expiry and an identity: the failure of the connection, or
  the refusal of the expiry, which the server meets when it writes the first row of the
  identity and not when the identity has no row. Identities are compared as byte strings,
  as a binary collation compares them, and every collation the hexadecimal identities that
  the debug provider issues.
\<close>

definition update_error :: "MySQL \<Rightarrow> time \<Rightarrow> string \<Rightarrow> error option" where
  "update_error s expire ident =
     (case update_failure s of
        Some err \<Rightarrow> Some err
      | None \<Rightarrow>
          if filter (\<lambda>r. col_ident r = ident) (apitoken s) \<noteq> []
             \<and> \<not> TIMESTAMP_range (TIMESTAMP_round s expire)
          then Some (Incorrect_datetime_value expire)
          else None)"

text \<open>The error of the INSERT for an expiry: the failure of the connection, or the refusal.\<close>

definition insert_error :: "MySQL \<Rightarrow> time \<Rightarrow> error option" where
  "insert_error s expire =
     (case insert_failure s of
        Some err \<Rightarrow> Some err
      | None \<Rightarrow>
          if \<not> TIMESTAMP_range (TIMESTAMP_round s expire)
          then Some (Incorrect_datetime_value expire)
          else None)"

text \<open>An \<open>sql.Result\<close>: what \<open>RowsAffected\<close> will return.\<close>

type_synonym Result = "error + int"

definition RowsAffected :: "Result \<Rightarrow> error + int" where
  "RowsAffected res = res"

text \<open>
  \<open>UPDATE apitoken SET token = ?, expire = ? WHERE ident = ?\<close>. Every row of the identity
  receives the token and the expiry as the column keeps it; the rows counted as changed are
  those whose stored values differ from the new ones. A statement that fails leaves the
  table as it is.
\<close>

definition updateAPIToken_Exec :: "MySQL \<Rightarrow> string \<Rightarrow> time \<Rightarrow> string \<Rightarrow> (error + Result) \<times> MySQL" where
  "updateAPIToken_Exec s token expire ident =
     (let s1 = s\<lparr>executed := executed s @ [UPDATE_apitoken token expire ident]\<rparr>;
          v = TIMESTAMP_round s expire;
          matched = filter (\<lambda>r. col_ident r = ident) (apitoken s);
          changed = filter (\<lambda>r. \<not> (col_token r = token \<and> col_expire r = v)) matched;
          n = (if clientFoundRows s then length matched else length changed)
      in case update_error s expire ident of
           Some err \<Rightarrow> (Inl err, s1)
         | None \<Rightarrow>
             (Inr (case rowsAffected_error s of Some err \<Rightarrow> Inl err | None \<Rightarrow> Inr (int n)),
              s1\<lparr>apitoken :=
                    map (\<lambda>r. if col_ident r = ident
                              then r\<lparr>col_token := token, col_expire := v\<rparr> else r)
                      (apitoken s)\<rparr>))"

text \<open>
  \<open>INSERT INTO apitoken (ident, token, expire) VALUES (?, ?, ?)\<close>: one more row, with the
  expiry as the column keeps it.
\<close>

definition insertAPIToken_Exec :: "MySQL \<Rightarrow> string \<Rightarrow> string \<Rightarrow> time \<Rightarrow> (error + Result) \<times> MySQL" where
  "insertAPIToken_Exec s ident token expire =
     (let s1 = s\<lparr>executed := executed s @ [INSERT_apitoken ident token expire]\<rparr>
      in case insert_error s expire of
           Some err \<Rightarrow> (Inl err, s1)
         | None \<Rightarrow>
             (Inr (Inr 1),
              s1\<lparr>apitoken :=
                    apitoken s @ [\<lparr>col_ident = ident, col_token = token,
                                   col_expire = TIMESTAMP_round s expire\<rparr>]\<rparr>))"

text \<open>
  \<open>SELECT token, expire FROM apitoken WHERE ident = ?\<close> through \<open>QueryRow\<close>: the first
  matching row, \<open>sql.ErrNoRows\<close> when there is none; the error is handed out by \<open>Scan\<close>.
\<close>

definition selectAPITokenByIdent_QueryRow :: "MySQL \<Rightarrow> string \<Rightarrow> error + string \<times> driver_Value" where
  "selectAPITokenByIdent_QueryRow s ident =
     (case select_error s of
        Some err \<Rightarrow> Inl err
      | None \<Rightarrow>
          (case filter (\<lambda>r. col_ident r = ident) (apitoken s) of
             [] \<Rightarrow> Inl ErrNoRows
           | r # _ \<Rightarrow> Inr (col_token r, timestamp_value s (col_expire r))))"

text \<open>
  \<open>row.Scan(&token, &expire)\<close> with \<open>token\<close> a string and \<open>expire\<close> an \<open>int64\<close>: the text
  column is stored as it is, the timestamp goes through \<open>convertAssign\<close>.
\<close>

definition Scan_string_int64 :: "error + string \<times> driver_Value \<Rightarrow> error + string \<times> int" where
  "Scan_string_int64 row =
     (case row of
        Inl err \<Rightarrow> Inl err
      | Inr (tok, v) \<Rightarrow>
          (case convertAssign_int64 v of Inl err \<Rightarrow> Inl err | Inr n \<Rightarrow> Inr (tok, n)))"

section \<open>The MySQL driver's token functions\<close>

definition GetUserAPIToken :: "MySQL \<Rightarrow> string \<Rightarrow> string \<times> time \<times> error option" where
  "GetUserAPIToken s ident =
     (case Scan_string_int64 (selectAPITokenByIdent_QueryRow s ident) of
        Inl err \<Rightarrow> ('''', time_zero, if err = ErrNoRows then None else Some err)
      | Inr (token, expire) \<Rightarrow>
          (let (tExpire, err) = time_Parse (string_of_int64 expire)
           in (token, tExpire, err)))"

text \<open>
  \<open>SetUserAPIToken\<close>. The \<open>err\<close> that the \<open>if\<close> statement declares with \<open>RowsAffected\<close>
  is the one the INSERT assigns to; the final \<open>return err\<close> reads the function's own
  \<open>err\<close>, which is nil once the UPDATE has succeeded.
\<close>

definition SetUserAPIToken :: "MySQL \<Rightarrow> string \<Rightarrow> string \<Rightarrow> time \<Rightarrow> error option \<times> MySQL" where
  "SetUserAPIToken s ident token expire =
     (case updateAPIToken_Exec s token expire ident of
        (Inl err, s1) \<Rightarrow> (Some err, s1)
      | (Inr res, s1) \<Rightarrow>
          (let err = None in
           case RowsAffected res of
             Inl err' \<Rightarrow> (Some err', s1)
           | Inr ar \<Rightarrow>
               if ar < 1 then
                 (case insertAPIToken_Exec s1 ident token expire of (err', s2) \<Rightarrow> (err, s2))
               else (err, s1)))"

section \<open>Package multierror\<close>

text \<open>
  Modelled from the spec: the package \<open>pkg/multierror\<close> is not among the sources. Section 7
  has partial failures \<open>accumulated\<close> and surfaced as \<open>an aggregate error\<close>, and the driver's
  \<open>setupPrepStatements\<close> appends the error of every \<open>Prepare\<close>, nil or not, and returns
  \<open>Concat\<close> as the error of \<open>Connect\<close>: appending nil adds nothing, \<open>Concat\<close> of no error
  is nil, and \<open>Concat\<close> of some errors is one error whose message lists theirs.
\<close>

type_synonym MultiError = "error list"

definition NewMultiError :: MultiError where
  "NewMultiError = []"

text \<open>Modelled from the spec: \<open>Append\<close> of the absent package; a nil error adds nothing.\<close>

definition Append :: "MultiError \<Rightarrow> error option \<Rightarrow> MultiError" where
  "Append m err = (case err of None \<Rightarrow> m | Some e \<Rightarrow> m @ [e])"

text \<open>
  Modelled from the spec: \<open>Concat\<close> of the absent package; nil when nothing was
  accumulated, else the aggregate error, whose message is the accumulated messages, one
  a line.
\<close>

definition Concat :: "MultiError \<Rightarrow> error option" where
  "Concat m =
     (if m = [] then None
      else Some (errorString (concat (map (\<lambda>e. Error e @ [CHR 0x0A]) m))))"

section \<open>The MySQL driver's \<open>GetVPlans\<close>\<close>

definition scan_error :: "error + 'a \<Rightarrow> error option" where
  "scan_error row = (case row of Inl err \<Rightarrow> Some err | Inr _ \<Rightarrow> None)"

definition new_VPlan :: "VPlanColumns \<Rightarrow> VPlan" where
  "new_VPlan c =
     \<lparr>ID = column_id c,
      DateEdit = fst (time_Parse (column_date_edit c)),
      DateFor = fst (time_Parse (column_date_for c)),
      Block = column_block c, Header = column_header c, Footer = column_footer c,
      Entries = []\<rparr>"

text \<open>The first loop: \<open>for rows.Next() { ... }\<close> over the rows of \<open>selectVPlans\<close>.\<close>

fun scan_vplans :: "(error + VPlanColumns) list \<Rightarrow> VPlan list \<Rightarrow> MultiError \<Rightarrow> VPlan list \<times> MultiError" where
  "scan_vplans [] vplans mErr = (vplans, mErr)"
| "scan_vplans (row # rows) vplans mErr =
     (let err = scan_error row;
          mErr1 = Append mErr err
      in case row of
           Inl _ \<Rightarrow> scan_vplans rows vplans mErr1
         | Inr c \<Rightarrow> scan_vplans rows (vplans @ [new_VPlan c]) mErr1)"

text \<open>The inner loop: the rows of one plan's entries.\<close>

fun scan_entries :: "(error + VPlanEntry) list \<Rightarrow> VPlan \<Rightarrow> MultiError \<Rightarrow> VPlan \<times> MultiError" where
  "scan_entries [] v mErr = (v, mErr)"
| "scan_entries (row # rows) v mErr =
     (let err = scan_error row;
          mErr1 = Append mErr err
      in case row of
           Inl _ \<Rightarrow> scan_entries rows v mErr1
         | Inr entry \<Rightarrow> scan_entries rows (v\<lparr>Entries := Entries v @ [entry]\<rparr>) mErr1)"

text \<open>The second loop: \<open>for _, v := range vplans { ... }\<close>; a failed query is skipped.\<close>

fun collect_entries :: "VPlanQueries \<Rightarrow> string \<Rightarrow> VPlan list \<Rightarrow> MultiError \<Rightarrow> VPlan list \<times> MultiError" where
  "collect_entries q class [] mErr = ([], mErr)"
| "collect_entries q class (v # vs) mErr =
     (let rows = (if class \<noteq> [] then selectVPlanEntriesByClass_Query q (ID v) class
                  else selectVPlanEntries_Query q (ID v));
          mErr1 = Append mErr (scan_error rows);
          (v', mErr2) = (case rows of
                           Inl _ \<Rightarrow> (v, mErr1)
                         | Inr entries \<Rightarrow> scan_entries entries v mErr1);
          (vs', mErr3) = collect_entries q class vs mErr2
      in (v' # vs', mErr3))"

definition GetVPlans :: "MySQL \<Rightarrow> string \<Rightarrow> time \<Rightarrow> VPlan list \<times> error option" where
  "GetVPlans s class timestamp =
     (case selectVPlans_Query (queries s) timestamp of
        Inl err \<Rightarrow> ([], Some err)
      | Inr rows \<Rightarrow>
          (let (vplans, mErr) = scan_vplans rows [] NewMultiError;
               (vplans', mErr') = collect_entries (queries s) class vplans mErr
           in (vplans', Concat mErr')))"

section \<open>The web server's handlers\<close>

record authRequestData =
  Password :: string
  Group :: string
  Session :: int

text \<open>
  What a handler passes to \<open>jsonResponse\<close>: the error envelope of \<open>apiError\<close>, the two
  answers of the login, and the map with the plans under \<open>data\<close>.
\<close>

datatype json =
  apiError nat string
  | authResponseData string "string option"
  | authTokenResposeData string "string option" string time
  | data "VPlan list"

text \<open>
  A session of the cookie store: its values and the max-age of its options.
\<close>

record Session =
  Values :: "string \<rightharpoonup> string"
  MaxAge :: int

text \<open>
  The \<open>http.ResponseWriter\<close> of a request: the status and the body written so far (status
  0 and no body before anything is written) and the session of the \<open>Set-Cookie\<close> header.
\<close>

record ResponseWriter =
  status :: nat
  body :: "json option"
  Set_Cookie :: "Session option"

definition new_ResponseWriter :: ResponseWriter where
  "new_ResponseWriter = \<lparr>status = 0, body = None, Set_Cookie = None\<rparr>"

text \<open>
  Modelled from the spec: \<open>jsonResponse\<close> is not among the sources; it writes the status
  and the JSON of the data (section 6).
\<close>

definition jsonResponse :: "ResponseWriter \<Rightarrow> nat \<Rightarrow> json \<Rightarrow> ResponseWriter" where
  "jsonResponse w code d = w\<lparr>status := code, body := Some d\<rparr>"

text \<open>
  A request as the handlers read it: the variables of the route, the query of the URL, and
  the body as \<open>parseJSONBody\<close> decodes it into an \<open>authRequestData\<close>, or its error.
\<close>

record Request =
  Vars :: "string \<rightharpoonup> string"
  Query :: "string \<rightharpoonup> string"
  Body :: "error + authRequestData"

text \<open>\<open>r.URL.Query().Get(key)\<close>: the empty string when the key is absent.\<close>

definition Query_Get :: "Request \<Rightarrow> string \<Rightarrow> string" where
  "Query_Get r key = (case Query r key of None \<Rightarrow> [] | Some v \<Rightarrow> v)"

text \<open>
  The collaborators a \<open>Server\<close> holds, by what their calls return: the rate limiter's
  verdict, the identity that \<open>reqAuth.Check\<close> finds together with the writer as it leaves
  it (it writes the response itself when it finds no identity), the auth provider,
  the token manager, the session store, the error of a session's \<open>Save\<close>, the name of the
  session cookie, the configured \<open>RememberMaxAge\<close>, the database, the clock and the standard
  library's parser for RFC 3339.
\<close>

record Server =
  limiter_Check :: "string \<Rightarrow> Request \<Rightarrow> bool"
  reqAuth_Check :: "ResponseWriter \<Rightarrow> Request \<Rightarrow> string \<times> ResponseWriter"
  authProvider_Authenticate :: "string \<Rightarrow> string \<Rightarrow> string \<Rightarrow> Response option \<times> error option"
  tokenManager_Set :: "string \<Rightarrow> string \<times> time \<times> error option"
  store_Get :: "Request \<Rightarrow> string \<Rightarrow> Session"
  session_Save :: "Session \<Rightarrow> error option"
  MainSessionName :: string
  RememberMaxAge :: int
  db :: MySQL
  time_Now :: time
  time_Parse_RFC3339 :: "string \<Rightarrow> time \<times> error option"

datatype call = tokenManager_Set_call string | session_Save_call Session

datatype panic = nil_pointer_dereference

text \<open>Reading a field through a pointer: a nil pointer panics.\<close>

definition deref :: "'a option \<Rightarrow> panic + 'a" where
  "deref p = (case p of None \<Rightarrow> Inl nil_pointer_dereference | Some x \<Rightarrow> Inr x)"

definition handlerAPIInternalError :: "ResponseWriter \<Rightarrow> error \<Rightarrow> ResponseWriter" where
  "handlerAPIInternalError w err = jsonResponse w 500 (apiError 500 (Error err))"

definition handlerAPIUnauthorizedError :: "ResponseWriter \<Rightarrow> ResponseWriter" where
  "handlerAPIUnauthorizedError w = jsonResponse w 401 (apiError 401 [])"

definition handlerAPIRateLimitError :: "ResponseWriter \<Rightarrow> ResponseWriter" where
  "handlerAPIRateLimitError w = jsonResponse w 429 (apiError 429 [])"

text \<open>
  \<open>session.Save(r, w)\<close>: the store's error, or the session sent to the client in the
  \<open>Set-Cookie\<close> header.
\<close>

definition Save :: "Server \<Rightarrow> Session \<Rightarrow> ResponseWriter \<Rightarrow> error option \<times> ResponseWriter" where
  "Save s session w =
     (case session_Save s session of
        Some err \<Rightarrow> (Some err, w)
      | None \<Rightarrow> (None, w\<lparr>Set_Cookie := Some session\<rparr>))"

text \<open>
  The branch \<open>reqData.Session > 0\<close> of the login: the identity is stored in the session,
  the max-age is replaced when the mode is above 1, the session is saved, and the answer
  is the identity with the context.
\<close>

definition session_branch :: "Server \<Rightarrow> ResponseWriter \<Rightarrow> Request \<Rightarrow> authRequestData \<Rightarrow> Response \<Rightarrow> ResponseWriter \<times> call list" where
  "session_branch s w r reqData authData =
     (let respData = authResponseData (Ident authData) (Ctx authData);
          session0 = store_Get s r (MainSessionName s);
          session1 = session0\<lparr>Values := (Values session0)(''ident'' \<mapsto> Ident authData)\<rparr>;
          session = (if Session reqData > 1 then session1\<lparr>MaxAge := RememberMaxAge s\<rparr>
                     else session1)
      in case Save s session w of (err, w1) \<Rightarrow>
           (case err of
              Some e \<Rightarrow> jsonResponse w1 500 (apiError 500 (Error e))
            | None \<Rightarrow> jsonResponse w1 200 respData,
            [session_Save_call session]))"

text \<open>The \<open>else\<close> branch: a token from the token manager.\<close>

definition token_branch :: "Server \<Rightarrow> ResponseWriter \<Rightarrow> Response \<Rightarrow> ResponseWriter \<times> call list" where
  "token_branch s w authData =
     (case tokenManager_Set s (Ident authData) of (token, expire, err) \<Rightarrow>
        (case err of
           Some e \<Rightarrow> jsonResponse w 500 (apiError 500 (Error e))
         | None \<Rightarrow>
             jsonResponse w 200
               (authTokenResposeData (Ident authData) (Ctx authData) token expire),
         [tokenManager_Set_call (Ident authData)]))"

text \<open>
  \<open>POST /api/authenticate/:USERNAME\<close>. The result is the writer as the handler leaves it
  and the calls made to the token manager and to \<open>Save\<close>, or the panic of a nil
  dereference. When the limiter refuses, it has written the response of
  \<open>handlerAPIRateLimitError\<close> itself.
\<close>

definition handlerAPIAuthenticate :: "Server \<Rightarrow> ResponseWriter \<Rightarrow> Request \<Rightarrow> panic + ResponseWriter \<times> call list" where
  "handlerAPIAuthenticate s w r =
     (if \<not> limiter_Check s ''authenticate'' r then Inr (handlerAPIRateLimitError w, [])
      else
        (let (uname, ok) = lookup_ok (Vars r) ''username'' in
         if \<not> ok then Inr (jsonResponse w 400 (apiError 400 []), [])
         else
           (case Body r of
              Inl err \<Rightarrow> Inr (jsonResponse w 400 (apiError 400 (Error err)), [])
            | Inr reqData \<Rightarrow>
                (let passwd = Password reqData in
                 if passwd = [] then Inr (jsonResponse w 400 (apiError 400 []), [])
                 else
                   (case authProvider_Authenticate s uname (Group reqData) passwd of
                      (authData0, err) \<Rightarrow>
                        if err \<noteq> None then Inr (jsonResponse w 401 (apiError 401 []), [])
                        else
                          (let authData = (if authData0 = None
                                           then Some \<lparr>Ident = [], Ctx = None\<rparr>
                                           else authData0)
                           in case deref authData of
                                Inl p \<Rightarrow> Inl p
                              | Inr a \<Rightarrow>
                                  if Session reqData > 0
                                  then Inr (session_branch s w r reqData a)
                                  else Inr (token_branch s w a)))))))"

text \<open>\<open>GET /api/vplan\<close>\<close>

definition handlerAPIGetVPlan :: "Server \<Rightarrow> ResponseWriter \<Rightarrow> Request \<Rightarrow> ResponseWriter" where
  "handlerAPIGetVPlan s w r =
     (if \<not> limiter_Check s ''getVPlan'' r then handlerAPIRateLimitError w
      else
        (case reqAuth_Check s w r of (ident, w1) \<Rightarrow>
           if ident = [] then w1
           else
             (let class = Query_Get r ''class'';
                  time_param = Query_Get r ''time'';
                  (t, err) = (if time_param = [] then (time_Now s, None)
                              else time_Parse_RFC3339 s time_param)
              in if err \<noteq> None
                 then jsonResponse w1 400 (apiError 400 ''time format is not RFC3339'')
                 else
                   (case GetVPlans (db s) class t of (vplans, err') \<Rightarrow>
                      (case err' of
                         Some e \<Rightarrow> jsonResponse w1 500 (apiError 500 (Error e))
                       | None \<Rightarrow> jsonResponse w1 200 (data vplans))))))"

section \<open>The token manager\<close>

text \<open>
  Modelled from the spec: the token manager behind \<open>s.tokenManager.Set\<close> is not among the
  sources. Section 4.2 (\<open>IssueOrRenew\<close>): it looks up an existing live token for the
  identity; if that is absent or the store signals no rows, it generates a new token
  (random, of a fixed length) and a new expiry (now plus the configured TTL) and upserts
  the record, which is \<open>SetUserAPIToken\<close>; it fails when the upsert fails. \<open>fresh_token\<close> is
  what the random source yields.
\<close>

record TokenManager =
  fresh_token :: string
  TTL :: int
  now :: time

text \<open>
  Modelled from the spec: \<open>IssueOrRenew\<close> of section 4.2, which the handler calls as
  \<open>s.tokenManager.Set\<close>. A live token is one the lookup returns without an error, not
  empty, whose expiry is after now.
\<close>

definition IssueOrRenew :: "TokenManager \<Rightarrow> MySQL \<Rightarrow> string \<Rightarrow> (string \<times> time \<times> error option) \<times> MySQL" where
  "IssueOrRenew tm s identity =
     (case GetUserAPIToken s identity of (tok, exp, err) \<Rightarrow>
        if err = None \<and> tok \<noteq> [] \<and> now tm < exp then ((tok, exp, None), s)
        else
          (let token = fresh_token tm;
               expiry = now tm + TTL tm
           in case SetUserAPIToken s identity token expiry of
                (err', s') \<Rightarrow> ((token, expiry, err'), s')))"

section \<open>Vocabulary of the properties and example states\<close>

text \<open>
  How many rows of a table a statement touched: the positions whose row differs, and the
  rows added at the end.
\<close>

definition mutated :: "'a list \<Rightarrow> 'a list \<Rightarrow> nat" where
  "mutated old new =
     length (filter (\<lambda>(a, b). a \<noteq> b) (zip old new)) + (length new - length old)"

definition update_row :: "string \<Rightarrow> string \<Rightarrow> time \<Rightarrow> apitoken_row \<Rightarrow> apitoken_row" where
  "update_row ident token expire r =
     (if col_ident r = ident then r\<lparr>col_token := token, col_expire := expire\<rparr> else r)"

text \<open>The rows of a result set that scan, and the errors of those that do not.\<close>

fun scanned :: "(error + 'a) list \<Rightarrow> 'a list" where
  "scanned [] = []"
| "scanned (Inl _ # rows) = scanned rows"
| "scanned (Inr x # rows) = x # scanned rows"

fun failures :: "(error + 'a) list \<Rightarrow> error list" where
  "failures [] = []"
| "failures (Inl err # rows) = err # failures rows"
| "failures (Inr _ # rows) = failures rows"

text \<open>
  What \<open>GetVPlans\<close> is to gather for one plan, said directly: the entries of its query
  that scan, none when the query fails; and the errors met on the way.
\<close>

definition entries_query :: "VPlanQueries \<Rightarrow> string \<Rightarrow> VPlan \<Rightarrow> error + (error + VPlanEntry) list" where
  "entries_query q class v =
     (if class \<noteq> [] then selectVPlanEntriesByClass_Query q (ID v) class
      else selectVPlanEntries_Query q (ID v))"

definition with_entries :: "VPlanQueries \<Rightarrow> string \<Rightarrow> VPlan \<Rightarrow> VPlan" where
  "with_entries q class v =
     (case entries_query q class v of
        Inl _ \<Rightarrow> v
      | Inr rows \<Rightarrow> v\<lparr>Entries := Entries v @ scanned rows\<rparr>)"

definition entry_failures :: "VPlanQueries \<Rightarrow> string \<Rightarrow> VPlan \<Rightarrow> error list" where
  "entry_failures q class v =
     (case entries_query q class v of Inl err \<Rightarrow> [err] | Inr rows \<Rightarrow> failures rows)"

text \<open>The identity and the context that a login's answer carries.\<close>

definition ident_ctx :: "json \<Rightarrow> (string \<times> string option) option" where
  "ident_ctx d =
     (case d of
        authResponseData ident ctx \<Rightarrow> Some (ident, ctx)
      | authTokenResposeData ident ctx token expire \<Rightarrow> Some (ident, ctx)
      | _ \<Rightarrow> None)"

text \<open>The SHA-256 digest of \<open>testpasswd\<close>, in lower-case hexadecimal digits.\<close>

definition debug_ident :: string where
  "debug_ident = ''9f0a4ae739f79351923368d1e088de65723985e61fc41806fe58543acae0325f''"

text \<open>2019-01-01 00:00:00 UTC and the day after.\<close>

definition t2019 :: time where
  "t2019 = 63681897600000000000"

definition t2019' :: time where
  "t2019' = 63681984000000000000"

text \<open>2100-01-01 00:00:00 UTC, which no TIMESTAMP holds.\<close>

definition t2100 :: time where
  "t2100 = 66238041600000000000"

definition entry1 :: VPlanEntry where
  "entry1 = \<lparr>entry_ID = 11, entry_VPlanID = 1, entry_Class = ''10a'', entry_Time = ''3'',
     entry_Messures = ''room 12'', entry_Resposible = ''N.N.''\<rparr>"

definition columns1 :: VPlanColumns where
  "columns1 = \<lparr>column_id = 1, column_date_edit = ''2019-01-01 00:00:00'',
     column_date_for = ''2019-01-02 00:00:00'', column_block = 0, column_header = ''h'',
     column_footer = ''f''\<rparr>"

text \<open>A database whose second plan row does not scan.\<close>

definition queries1 :: VPlanQueries where
  "queries1 =
     \<lparr>selectVPlans_Query = (\<lambda>t. Inr [Inr columns1, Inl (errorString ''bad row'')]),
      selectVPlanEntries_Query = (\<lambda>i. Inr [Inr entry1]),
      selectVPlanEntriesByClass_Query = (\<lambda>i c. Inr [Inr entry1])\<rparr>"

definition mysql0 :: MySQL where
  "mysql0 = \<lparr>apitoken = [], executed = [], timestamp_value = timestamp_text,
     clientFoundRows = False, TIME_TRUNCATE_FRACTIONAL = False, update_failure = None,
     rowsAffected_error = None, insert_failure = None, select_error = None,
     queries = queries1\<rparr>"

definition mysql1 :: MySQL where
  "mysql1 = mysql0\<lparr>apitoken :=
     [\<lparr>col_ident = ''alice'', col_token = ''old'', col_expire = t2019\<rparr>,
      \<lparr>col_ident = ''bob'', col_token = ''b'', col_expire = t2019\<rparr>]\<rparr>"

text \<open>The driver's state after the same token is set twice on an empty table.\<close>

definition mysql2 :: MySQL where
  "mysql2 = snd (SetUserAPIToken (snd (SetUserAPIToken mysql0 ''alice'' ''tok'' t2019))
                   ''alice'' ''tok'' t2019)"

definition debug0 :: DebugAuthProvider where
  "debug0 = fst (Connect \<lparr>cfg = Map.empty, creds = Map.empty\<rparr> Map.empty)"

definition manager0 :: TokenManager where
  "manager0 = \<lparr>fresh_token = ''c29tZSByYW5kb20gYnl0ZXM'', TTL = 3600000000000, now = t2019\<rparr>"

definition server0 :: Server where
  "server0 =
     \<lparr>limiter_Check = (\<lambda>name r. True),
      reqAuth_Check = (\<lambda>w r. (''someone'', w)),
      authProvider_Authenticate = (\<lambda>username group password. Authenticate debug0 username password),
      tokenManager_Set = (\<lambda>ident. fst (IssueOrRenew manager0 mysql0 ident)),
      store_Get = (\<lambda>r name. \<lparr>Values = Map.empty, MaxAge = 3600\<rparr>),
      session_Save = (\<lambda>session. None),
      MainSessionName = ''main'',
      RememberMaxAge = 2592000,
      db = mysql0,
      time_Now = t2019,
      time_Parse_RFC3339 = (\<lambda>v. (time_zero, Some (errorString ''parsing time'')))\<rparr>"

definition request0 :: "int \<Rightarrow> Request" where
  "request0 mode =
     \<lparr>Vars = [''username'' \<mapsto> ''test''], Query = Map.empty,
      Body = Inr \<lparr>Password = ''passwd'', Group = [], Session = mode\<rparr>\<rparr>"

section \<open>Properties of the debug auth provider\<close>

lemma Authenticate_cases:
  "Authenticate d username password =
     (if creds d username = Some password
      then (Some \<lparr>Ident = Sprintf_x (sha256_Sum256 (bytes_of (username @ password))), Ctx = None\<rparr>, None)
      else (None, Some (errors_New ''unauthorized'')))"
  by (auto simp: Authenticate_def lookup_ok_def split: option.splits)

text \<open>
  Claim C5. A pair of user name and password that is not in the credential store, because
  the name is absent or because the stored password differs, is answered with the error
  \<open>unauthorized\<close> and a nil response; the answer is the same value in both cases, so it
  does not tell an unknown user from a wrong password.
\<close>

theorem Authenticate_rejects_unknown_credentials:
  assumes "creds d username = None \<or> (\<exists>pw. creds d username = Some pw \<and> pw \<noteq> password)"
  shows "Authenticate d username password = (None, Some (errors_New ''unauthorized''))"
  using assms by (auto simp: Authenticate_cases)

theorem Authenticate_rejects_unknown_credentials_witness:
  "Authenticate (fst (Connect \<lparr>cfg = Map.empty, creds = Map.empty\<rparr> Map.empty)) ''nobody'' ''passwd''
     = (None, Some (errors_New ''unauthorized''))
   \<and> Authenticate (fst (Connect \<lparr>cfg = Map.empty, creds = Map.empty\<rparr> Map.empty)) ''test'' ''guess''
     = (None, Some (errors_New ''unauthorized''))"
proof -
  let ?d = "fst (Connect \<lparr>cfg = Map.empty, creds = Map.empty\<rparr> Map.empty)"
  have absent: "creds ?d ''nobody'' = None \<or> (\<exists>pw. creds ?d ''nobody'' = Some pw \<and> pw \<noteq> ''passwd'')"
    by (simp add: Connect_def)
  have wrong: "creds ?d ''test'' = None \<or> (\<exists>pw. creds ?d ''test'' = Some pw \<and> pw \<noteq> ''guess'')"
    by (simp add: Connect_def)
  show ?thesis
    using Authenticate_rejects_unknown_credentials [OF absent]
      Authenticate_rejects_unknown_credentials [OF wrong]
    by simp
qed

text \<open>
  Claim C8. The identity of an accepted credential is a function of the user name and the
  password alone: two calls with the same inputs return the same identity, whatever the
  provider's state at either call.
\<close>

theorem Authenticate_deterministic_identity:
  assumes "Authenticate d1 username password = (Some r1, e1)"
    and "Authenticate d2 username password = (Some r2, e2)"
  shows "Ident r1 = Ident r2"
  using assms by (auto simp: Authenticate_cases split: if_splits)

theorem Authenticate_deterministic_identity_witness:
  "Ident (the (fst (Authenticate (fst (Connect \<lparr>cfg = Map.empty, creds = Map.empty\<rparr> Map.empty)) ''test'' ''passwd'')))
     = Ident (the (fst (Authenticate (fst (Connect \<lparr>cfg = Map.empty, creds = Map.empty\<rparr> [''host'' \<mapsto> ''x''])) ''test'' ''passwd'')))"
proof -
  let ?d1 = "fst (Connect \<lparr>cfg = Map.empty, creds = Map.empty\<rparr> Map.empty)"
  let ?d2 = "fst (Connect \<lparr>cfg = Map.empty, creds = Map.empty\<rparr> [''host'' \<mapsto> ''x''])"
  let ?i = "Sprintf_x (sha256_Sum256 (bytes_of (''test'' @ ''passwd'')))"
  have a1: "Authenticate ?d1 ''test'' ''passwd'' = (Some \<lparr>Ident = ?i, Ctx = None\<rparr>, None)"
    by (simp add: Authenticate_cases Connect_def)
  have a2: "Authenticate ?d2 ''test'' ''passwd'' = (Some \<lparr>Ident = ?i, Ctx = None\<rparr>, None)"
    by (simp add: Authenticate_cases Connect_def)
  show ?thesis
    using Authenticate_deterministic_identity [OF a1 a2] a1 a2 by simp
qed

section \<open>Properties of the token functions\<close>

lemma length_string_of_int64: "length (string_of_int64 i) \<le> 4"
  by (simp add: string_of_int64_def Let_def)

lemma parse_fields_short: "length v \<le> 4 \<Longrightarrow> parse_fields v = None"
proof (cases "length v < 4 \<or> \<not> isDigit v 0")
  case True
  then show ?thesis by (auto simp: parse_fields_def require_def)
next
  case False
  assume "length v \<le> 4"
  with False have "drop 4 v = []" by simp
  then have "skip (drop 4 v) (CHR ''-'') = None" by (simp add: skip_def)
  then show ?thesis by (simp add: parse_fields_def require_def split: Option.bind_splits)
qed

lemma time_Parse_string_of_int64:
  "time_Parse (string_of_int64 i) = (time_zero, Some (newParseError (string_of_int64 i)))"
  by (simp add: time_Parse_def parse_fields_short length_string_of_int64)

lemma GetUserAPIToken_time: "fst (snd (GetUserAPIToken s ident)) = time_zero"
  by (auto simp: GetUserAPIToken_def time_Parse_string_of_int64 split: sum.splits)

lemma convertAssign_int64_not_ErrNoRows: "convertAssign_int64 v \<noteq> Inl ErrNoRows"
  by (cases v) (auto split: option.splits)

lemma GetUserAPIToken_row_error:
  assumes "filter (\<lambda>r. col_ident r = ident) (apitoken s) \<noteq> []" and "select_error s = None"
  shows "snd (snd (GetUserAPIToken s ident)) \<noteq> None"
proof -
  obtain r rs where rows: "filter (\<lambda>r. col_ident r = ident) (apitoken s) = r # rs"
    using assms(1) by (cases "filter (\<lambda>r. col_ident r = ident) (apitoken s)") auto
  have q: "selectAPITokenByIdent_QueryRow s ident = Inr (col_token r, timestamp_value s (col_expire r))"
    by (simp add: selectAPITokenByIdent_QueryRow_def assms(2) rows)
  show ?thesis
  proof (cases "convertAssign_int64 (timestamp_value s (col_expire r))")
    case (Inl err)
    then have "err \<noteq> ErrNoRows" using convertAssign_int64_not_ErrNoRows by metis
    with Inl show ?thesis by (simp add: GetUserAPIToken_def Scan_string_int64_def q)
  next
    case (Inr n)
    then show ?thesis
      by (simp add: GetUserAPIToken_def Scan_string_int64_def q time_Parse_string_of_int64)
  qed
qed

lemmas Set_defs = SetUserAPIToken_def updateAPIToken_Exec_def insertAPIToken_Exec_def
  RowsAffected_def Let_def

lemmas column_defs = update_error_def insert_error_def TIMESTAMP_round_def
  TIMESTAMP_range_def TIMESTAMP_min_def TIMESTAMP_max_def

lemma column_of_connection [simp]:
  "insert_error (s\<lparr>executed := e\<rparr>) expire = insert_error s expire"
  "insert_error (s\<lparr>apitoken := a\<rparr>) expire = insert_error s expire"
  "TIMESTAMP_round (s\<lparr>executed := e\<rparr>) expire = TIMESTAMP_round s expire"
  "TIMESTAMP_round (s\<lparr>apitoken := a\<rparr>) expire = TIMESTAMP_round s expire"
  by (simp_all add: insert_error_def TIMESTAMP_round_def)

lemma SetUserAPIToken_cases:
  "SetUserAPIToken s ident token expire =
     (let U = UPDATE_apitoken token expire ident;
          I = INSERT_apitoken ident token expire;
          v = TIMESTAMP_round s expire;
          rows = map (update_row ident token v) (apitoken s);
          matched = filter (\<lambda>r. col_ident r = ident) (apitoken s);
          changed = filter (\<lambda>r. \<not> (col_token r = token \<and> col_expire r = v)) matched;
          n = (if clientFoundRows s then length matched else length changed)
      in case update_error s expire ident of
           Some err \<Rightarrow> (Some err, s\<lparr>executed := executed s @ [U]\<rparr>)
         | None \<Rightarrow>
             (case rowsAffected_error s of
                Some err \<Rightarrow> (Some err, s\<lparr>executed := executed s @ [U], apitoken := rows\<rparr>)
              | None \<Rightarrow>
                  if 0 < n then (None, s\<lparr>executed := executed s @ [U], apitoken := rows\<rparr>)
                  else (None, s\<lparr>executed := executed s @ [U, I],
                                 apitoken := (case insert_error s expire of
                                                Some err \<Rightarrow> rows
                                              | None \<Rightarrow> rows @ [\<lparr>col_ident = ident, col_token = token,
                                                                   col_expire = v\<rparr>])\<rparr>)))"
  by (simp add: Set_defs update_row_def [abs_def] split: option.splits)

lemma updateAPIToken_Exec_cases:
  "updateAPIToken_Exec s token expire ident =
     (case update_error s expire ident of
        Some err \<Rightarrow> (Inl err, s\<lparr>executed := executed s @ [UPDATE_apitoken token expire ident]\<rparr>)
      | None \<Rightarrow>
          (Inr (case rowsAffected_error s of
                  Some err \<Rightarrow> Inl err
                | None \<Rightarrow> Inr (int (if clientFoundRows s
                     then length (filter (\<lambda>r. col_ident r = ident) (apitoken s))
                     else length (filter (\<lambda>r. \<not> (col_token r = token
                                                   \<and> col_expire r = TIMESTAMP_round s expire))
                            (filter (\<lambda>r. col_ident r = ident) (apitoken s)))))),
           s\<lparr>executed := executed s @ [UPDATE_apitoken token expire ident],
             apitoken := map (update_row ident token (TIMESTAMP_round s expire)) (apitoken s)\<rparr>))"
  by (simp add: updateAPIToken_Exec_def Let_def update_row_def [abs_def] split: option.splits)

lemma SetUserAPIToken_keeps_connection:
  "select_error (snd (SetUserAPIToken s ident token expire)) = select_error s"
  by (simp add: SetUserAPIToken_cases Let_def split: option.splits)

lemma filter_map_update_nonempty:
  "filter P xs \<noteq> [] \<Longrightarrow> (\<And>x. P x \<Longrightarrow> P (f x)) \<Longrightarrow> filter P (map f xs) \<noteq> []"
  by (induction xs) (auto split: if_splits)

lemma SetUserAPIToken_stores_row:
  assumes "update_error s expire ident = None" "rowsAffected_error s = None"
    "insert_error s expire = None"
  shows "filter (\<lambda>r. col_ident r = ident) (apitoken (snd (SetUserAPIToken s ident token expire))) \<noteq> []"
proof -
  let ?matched = "filter (\<lambda>r. col_ident r = ident) (apitoken s)"
  let ?v = "TIMESTAMP_round s expire"
  show ?thesis
  proof (cases "?matched = []")
    case True
    then show ?thesis using assms
      by (simp add: SetUserAPIToken_cases Let_def)
  next
    case False
    then have "filter (\<lambda>r. col_ident r = ident) (map (update_row ident token ?v) (apitoken s)) \<noteq> []"
      by (rule filter_map_update_nonempty) (simp add: update_row_def)
    then show ?thesis using assms
      by (simp add: SetUserAPIToken_cases Let_def)
  qed
qed

text \<open>
  Claim C1 says that \<open>GetUserAPIToken\<close> after \<open>SetUserAPIToken\<close> returns the token and
  the expiry that were set. On the code it does not: \<open>GetUserAPIToken\<close> scans the
  timestamp into an \<open>int64\<close> and parses the one-character text \<open>string(expire)\<close>, which
  no timestamp is. When every database operation succeeds, the lookup after the update
  returns an error and the zero time, whatever the driver hands to \<open>Scan\<close>.
\<close>

theorem GetUserAPIToken_after_SetUserAPIToken:
  assumes "update_error s expire ident = None" and "rowsAffected_error s = None"
    and "insert_error s expire = None" and "select_error s = None"
  shows "snd (snd (GetUserAPIToken (snd (SetUserAPIToken s ident token expire)) ident)) \<noteq> None
    \<and> fst (snd (GetUserAPIToken (snd (SetUserAPIToken s ident token expire)) ident)) = time_zero"
  using GetUserAPIToken_row_error [OF SetUserAPIToken_stores_row [OF assms(1-3)]]
    SetUserAPIToken_keeps_connection assms(4) GetUserAPIToken_time
  by simp

theorem GetUserAPIToken_after_SetUserAPIToken_witness:
  "fst (SetUserAPIToken mysql0 ''alice'' ''tok'' t2019) = None
   \<and> snd (snd (GetUserAPIToken (snd (SetUserAPIToken mysql0 ''alice'' ''tok'' t2019)) ''alice'')) \<noteq> None
   \<and> fst (snd (GetUserAPIToken (snd (SetUserAPIToken mysql0 ''alice'' ''tok'' t2019)) ''alice'')) = time_zero"
proof -
  have ok: "update_error mysql0 t2019 ''alice'' = None" "rowsAffected_error mysql0 = None"
    "insert_error mysql0 t2019 = None" "select_error mysql0 = None"
    by (simp_all add: mysql0_def column_defs t2019_def)
  have "fst (SetUserAPIToken mysql0 ''alice'' ''tok'' t2019) = None"
    by (simp add: Set_defs column_defs mysql0_def t2019_def)
  then show ?thesis
    using GetUserAPIToken_after_SetUserAPIToken [OF ok, of "''tok''"]
    by simp
qed

text \<open>The answer at that input with MySQL's text timestamps, evaluated.\<close>

lemma GetUserAPIToken_example:
  "GetUserAPIToken (snd (SetUserAPIToken mysql0 ''alice'' ''tok'' t2019)) ''alice''
   = ([], time_zero,
      Some (errorString ''converting driver.Value type []uint8 to a int64: 2019-01-01 00:00:00''))"
  by code_simp

lemma filter_others_update:
  "filter (\<lambda>r. col_ident r \<noteq> ident) (map (update_row ident token expire) rows)
     = filter (\<lambda>r. col_ident r \<noteq> ident) rows"
  by (induction rows) (auto simp: update_row_def)

lemma mutated_map:
  "mutated rows (map f rows) = length (filter (\<lambda>r. r \<noteq> f r) rows)"
  by (induction rows) (auto simp: mutated_def)

lemma mutated_same: "mutated rows rows = 0"
  by (induction rows) (auto simp: mutated_def)

lemma mutated_map_append:
  "mutated rows (map f rows @ [x]) = length (filter (\<lambda>r. r \<noteq> f r) rows) + 1"
  by (induction rows) (auto simp: mutated_def)

lemma changed_le_matched:
  "length (filter (\<lambda>r. r \<noteq> update_row ident token expire r) rows)
     \<le> length (filter (\<lambda>r. col_ident r = ident) rows)"
  by (induction rows) (auto simp: update_row_def)

lemma changed_le_changed:
  "length (filter (\<lambda>r. r \<noteq> update_row ident token expire r) rows)
     \<le> length (filter (\<lambda>r. \<not> (col_token r = token \<and> col_expire r = expire))
            (filter (\<lambda>r. col_ident r = ident) rows))"
  by (induction rows) (auto simp: update_row_def)

lemma TIMESTAMP_round_whole_second: "TIMESTAMP_round s t mod 1000000000 = 0"
  by (simp add: TIMESTAMP_round_def Let_def)

lemma TIMESTAMP_round_nearest:
  "if TIME_TRUNCATE_FRACTIONAL s
   then TIMESTAMP_round s t \<le> t \<and> t < TIMESTAMP_round s t + 1000000000
   else TIMESTAMP_round s t - 500000000 \<le> t \<and> t < TIMESTAMP_round s t + 500000000"
proof -
  define u where "u = t div 1000"
  have u: "1000 * u \<le> t" "t < 1000 * u + 1000"
    unfolding u_def by simp_all
  define q where "q = (u + 500000) div 1000000"
  have q: "1000000 * q \<le> u + 500000" "u + 500000 < 1000000 * q + 1000000"
    unfolding q_def by simp_all
  define p where "p = u div 1000000"
  have p: "1000000 * p \<le> u" "u < 1000000 * p + 1000000"
    unfolding p_def by simp_all
  have "TIMESTAMP_round s t = (if TIME_TRUNCATE_FRACTIONAL s then p else q) * 1000000000"
    by (simp add: TIMESTAMP_round_def Let_def u_def q_def p_def)
  then show ?thesis using u q p by auto
qed

text \<open>
  Claim C3, as amended. \<open>SetUserAPIToken\<close> executes the UPDATE keyed by the identity first,
  and the INSERT after it exactly when the UPDATE reports zero affected rows, which is
  when the UPDATE and the reading of its count succeed and the identity has no row, or,
  on a connection that counts changed rows, its rows hold the token and the expiry
  already. When the UPDATE fails the table is as before. When it succeeds, every row of
  the identity is set to the token and to the expiry as the column keeps it, and an INSERT
  that is executed and succeeds adds one row of the identity with them; nothing else is
  written. The column keeps the whole second nearest to the expiry, half a second going
  upwards, or the whole second at or before it when the server truncates. So the rows of
  every other identity are the same before and after, and where the identity owns at most
  one row, at most one row is changed or added.
\<close>

theorem SetUserAPIToken_update_then_insert:
  fixes s ident token expire
  defines "s' \<equiv> snd (SetUserAPIToken s ident token expire)"
    and "v \<equiv> TIMESTAMP_round s expire"
    and "matched \<equiv> filter (\<lambda>r. col_ident r = ident) (apitoken s)"
  shows "(executed s' = executed s @ [UPDATE_apitoken token expire ident]
          \<or> executed s' = executed s @ [UPDATE_apitoken token expire ident,
                                         INSERT_apitoken ident token expire])
    \<and> ((executed s' = executed s @ [UPDATE_apitoken token expire ident,
                                     INSERT_apitoken ident token expire])
         = (\<exists>s1. updateAPIToken_Exec s token expire ident = (Inr (Inr 0), s1)))
    \<and> ((\<exists>s1. updateAPIToken_Exec s token expire ident = (Inr (Inr 0), s1))
         = (update_error s expire ident = None \<and> rowsAffected_error s = None
            \<and> (if clientFoundRows s then matched = []
               else list_all (\<lambda>r. col_token r = token \<and> col_expire r = v) matched)))
    \<and> (update_error s expire ident \<noteq> None \<longrightarrow> apitoken s' = apitoken s)
    \<and> (update_error s expire ident = None \<longrightarrow>
         apitoken s' = map (update_row ident token v) (apitoken s)
           @ (if executed s' = executed s @ [UPDATE_apitoken token expire ident,
                                              INSERT_apitoken ident token expire]
                 \<and> insert_error s expire = None
              then [\<lparr>col_ident = ident, col_token = token, col_expire = v\<rparr>] else []))
    \<and> v mod 1000000000 = 0
    \<and> (if TIME_TRUNCATE_FRACTIONAL s then v \<le> expire \<and> expire < v + 1000000000
        else v - 500000000 \<le> expire \<and> expire < v + 500000000)
    \<and> filter (\<lambda>r. col_ident r \<noteq> ident) (apitoken s')
         = filter (\<lambda>r. col_ident r \<noteq> ident) (apitoken s)
    \<and> (length matched \<le> 1 \<longrightarrow> mutated (apitoken s) (apitoken s') \<le> 1)"
proof -
  let ?U = "UPDATE_apitoken token expire ident"
  let ?I = "INSERT_apitoken ident token expire"
  let ?s = "snd (SetUserAPIToken s ident token expire)"
  let ?v = "TIMESTAMP_round s expire"
  let ?m = "filter (\<lambda>r. col_ident r = ident) (apitoken s)"
  let ?c = "filter (\<lambda>r. \<not> (col_token r = token \<and> col_expire r = ?v)) ?m"
  let ?d = "length (filter (\<lambda>r. r \<noteq> update_row ident token ?v r) (apitoken s))"
  have dm: "?d \<le> length ?m" by (rule changed_le_matched)
  have dc: "?d \<le> length ?c" by (rule changed_le_changed)
  have order: "executed ?s = executed s @ [?U] \<or> executed ?s = executed s @ [?U, ?I]"
    by (simp add: SetUserAPIToken_cases Let_def split: option.splits)
  have inserts: "(executed ?s = executed s @ [?U, ?I])
      = (\<exists>s1. updateAPIToken_Exec s token expire ident = (Inr (Inr 0), s1))"
    by (auto simp: SetUserAPIToken_cases updateAPIToken_Exec_cases Let_def split: option.splits)
  have zero: "(\<exists>s1. updateAPIToken_Exec s token expire ident = (Inr (Inr 0), s1))
      = (update_error s expire ident = None \<and> rowsAffected_error s = None
         \<and> (if clientFoundRows s then ?m = []
            else list_all (\<lambda>r. col_token r = token \<and> col_expire r = ?v) ?m))"
    by (auto simp: updateAPIToken_Exec_cases list_all_iff filter_empty_conv split: option.splits)
  have failed: "update_error s expire ident \<noteq> None \<longrightarrow> apitoken ?s = apitoken s"
    by (auto simp: SetUserAPIToken_cases Let_def)
  have written: "update_error s expire ident = None \<longrightarrow>
      apitoken ?s = map (update_row ident token ?v) (apitoken s)
        @ (if executed ?s = executed s @ [?U, ?I] \<and> insert_error s expire = None
           then [\<lparr>col_ident = ident, col_token = token, col_expire = ?v\<rparr>] else [])"
    by (auto simp: SetUserAPIToken_cases Let_def split: option.splits)
  have others: "filter (\<lambda>r. col_ident r \<noteq> ident) (apitoken ?s)
      = filter (\<lambda>r. col_ident r \<noteq> ident) (apitoken s)"
    by (simp add: SetUserAPIToken_cases Let_def filter_others_update split: option.splits)
  have one: "length ?m \<le> 1 \<longrightarrow> mutated (apitoken s) (apitoken ?s) \<le> 1"
    using dm dc
    by (auto simp: SetUserAPIToken_cases Let_def mutated_map mutated_map_append mutated_same
        split: option.splits)
  have whole: "?v mod 1000000000 = 0"
    by (rule TIMESTAMP_round_whole_second)
  have nearest: "if TIME_TRUNCATE_FRACTIONAL s then ?v \<le> expire \<and> expire < ?v + 1000000000
      else ?v - 500000000 \<le> expire \<and> expire < ?v + 500000000"
    by (rule TIMESTAMP_round_nearest)
  show ?thesis
    unfolding s'_def v_def matched_def
    by (intro conjI order inserts zero failed written whole nearest others one)
qed

theorem SetUserAPIToken_update_then_insert_witness:
  "apitoken (snd (SetUserAPIToken mysql1 ''alice'' ''tok'' (t2019' + 400000000)))
     = [\<lparr>col_ident = ''alice'', col_token = ''tok'', col_expire = t2019'\<rparr>,
        \<lparr>col_ident = ''bob'', col_token = ''b'', col_expire = t2019\<rparr>]
   \<and> executed (snd (SetUserAPIToken mysql1 ''alice'' ''tok'' (t2019' + 400000000)))
       = [UPDATE_apitoken ''tok'' (t2019' + 400000000) ''alice'']
   \<and> mutated (apitoken mysql1)
        (apitoken (snd (SetUserAPIToken mysql1 ''alice'' ''tok'' (t2019' + 400000000)))) \<le> 1
   \<and> apitoken (snd (SetUserAPIToken mysql1 ''carol'' ''c'' t2019'))
       = apitoken mysql1 @ [\<lparr>col_ident = ''carol'', col_token = ''c'', col_expire = t2019'\<rparr>]
   \<and> executed (snd (SetUserAPIToken mysql1 ''carol'' ''c'' t2019'))
       = [UPDATE_apitoken ''c'' t2019' ''carol'', INSERT_apitoken ''carol'' ''c'' t2019']
   \<and> update_error mysql1 t2100 ''alice'' \<noteq> None
   \<and> apitoken (snd (SetUserAPIToken mysql1 ''alice'' ''tok'' t2100)) = apitoken mysql1"
proof -
  let ?t = "t2019' + 400000000"
  have e0: "executed mysql1 = []"
    by (simp add: mysql1_def mysql0_def)
  have a0: "length (filter (\<lambda>r. col_ident r = ''alice'') (apitoken mysql1)) \<le> 1"
    by (simp add: mysql1_def mysql0_def)
  have a1: "update_error mysql1 ?t ''alice'' = None"
    by (simp add: column_defs mysql1_def mysql0_def t2019'_def)
  have a2: "TIMESTAMP_round mysql1 ?t = t2019'"
    by (simp add: column_defs mysql1_def mysql0_def t2019'_def)
  have a3: "executed (snd (SetUserAPIToken mysql1 ''alice'' ''tok'' ?t)) = [UPDATE_apitoken ''tok'' ?t ''alice'']"
    by (simp add: Set_defs column_defs mysql1_def mysql0_def t2019_def t2019'_def)
  have a4: "map (update_row ''alice'' ''tok'' t2019') (apitoken mysql1)
      = [\<lparr>col_ident = ''alice'', col_token = ''tok'', col_expire = t2019'\<rparr>,
         \<lparr>col_ident = ''bob'', col_token = ''b'', col_expire = t2019\<rparr>]"
    by (simp add: update_row_def mysql1_def mysql0_def)
  have alice: "apitoken (snd (SetUserAPIToken mysql1 ''alice'' ''tok'' ?t))
      = [\<lparr>col_ident = ''alice'', col_token = ''tok'', col_expire = t2019'\<rparr>,
         \<lparr>col_ident = ''bob'', col_token = ''b'', col_expire = t2019\<rparr>]"
    using SetUserAPIToken_update_then_insert [of mysql1 "''alice''" "''tok''" ?t] a1
    by (simp add: a2 a3 a4 e0)
  have one: "mutated (apitoken mysql1) (apitoken (snd (SetUserAPIToken mysql1 ''alice'' ''tok'' ?t))) \<le> 1"
    using SetUserAPIToken_update_then_insert [of mysql1 "''alice''" "''tok''" ?t] a0
    by blast
  have c1: "update_error mysql1 t2019' ''carol'' = None" "insert_error mysql1 t2019' = None"
    by (simp_all add: column_defs mysql1_def mysql0_def t2019'_def)
  have c2: "TIMESTAMP_round mysql1 t2019' = t2019'"
    by (simp add: column_defs mysql1_def mysql0_def t2019'_def)
  have c3: "executed (snd (SetUserAPIToken mysql1 ''carol'' ''c'' t2019'))
      = [UPDATE_apitoken ''c'' t2019' ''carol'', INSERT_apitoken ''carol'' ''c'' t2019']"
    by (simp add: Set_defs column_defs mysql1_def mysql0_def t2019_def t2019'_def)
  have c4: "map (update_row ''carol'' ''c'' t2019') (apitoken mysql1) = apitoken mysql1"
    by (simp add: update_row_def mysql1_def mysql0_def)
  have carol: "apitoken (snd (SetUserAPIToken mysql1 ''carol'' ''c'' t2019'))
      = apitoken mysql1 @ [\<lparr>col_ident = ''carol'', col_token = ''c'', col_expire = t2019'\<rparr>]"
    using SetUserAPIToken_update_then_insert [of mysql1 "''carol''" "''c''" "t2019'"] c1
    by (simp add: c2 c3 c4 e0)
  have r1: "update_error mysql1 t2100 ''alice'' \<noteq> None"
    by (simp add: column_defs mysql1_def mysql0_def t2100_def)
  have refused: "apitoken (snd (SetUserAPIToken mysql1 ''alice'' ''tok'' t2100)) = apitoken mysql1"
    using SetUserAPIToken_update_then_insert [of mysql1 "''alice''" "''tok''" t2100] r1
    by blast
  show ?thesis
    using alice a3 one carol c3 r1 refused by simp
qed

text \<open>
  Claim C3 as stated has the call touch at most a single row. The table has no uniqueness
  on \<open>ident\<close>: setting the same token twice on an empty table leaves two rows of the
  identity, because the second UPDATE changes no row, and the next call changes both.
\<close>

theorem SetUserAPIToken_touches_every_row_of_ident:
  "apitoken mysql2
     = [\<lparr>col_ident = ''alice'', col_token = ''tok'', col_expire = t2019\<rparr>,
        \<lparr>col_ident = ''alice'', col_token = ''tok'', col_expire = t2019\<rparr>]
   \<and> apitoken (snd (SetUserAPIToken mysql2 ''alice'' ''new'' t2019'))
     = [\<lparr>col_ident = ''alice'', col_token = ''new'', col_expire = t2019'\<rparr>,
        \<lparr>col_ident = ''alice'', col_token = ''new'', col_expire = t2019'\<rparr>]
   \<and> mutated (apitoken mysql2) (apitoken (snd (SetUserAPIToken mysql2 ''alice'' ''new'' t2019'))) = 2"
proof -
  have t: "apitoken mysql2
     = [\<lparr>col_ident = ''alice'', col_token = ''tok'', col_expire = t2019\<rparr>,
        \<lparr>col_ident = ''alice'', col_token = ''tok'', col_expire = t2019\<rparr>]"
    by (simp add: mysql2_def Set_defs column_defs mysql0_def t2019_def)
  have c: "clientFoundRows mysql2 = False \<and> TIME_TRUNCATE_FRACTIONAL mysql2 = False
      \<and> update_failure mysql2 = None \<and> rowsAffected_error mysql2 = None"
    by (simp add: mysql2_def Set_defs column_defs mysql0_def t2019_def)
  have n: "apitoken (snd (SetUserAPIToken mysql2 ''alice'' ''new'' t2019'))
     = [\<lparr>col_ident = ''alice'', col_token = ''new'', col_expire = t2019'\<rparr>,
        \<lparr>col_ident = ''alice'', col_token = ''new'', col_expire = t2019'\<rparr>]"
    using c
    by (simp add: Set_defs column_defs t t2019_def t2019'_def)
  show ?thesis
    by (simp add: t n mutated_def)
qed

text \<open>
  Claim C4, as amended. When the UPDATE fails, \<open>SetUserAPIToken\<close> returns the UPDATE's
  error at once: no INSERT is attempted and the table is as before. When the count of
  affected rows cannot be read, it returns that error, again without an INSERT. When no
  statement fails it returns nil, and so it does, without an INSERT, when the UPDATE
  reports one row or more.
\<close>

theorem SetUserAPIToken_error_flow:
  "(update_error s expire ident = Some err \<longrightarrow>
      fst (SetUserAPIToken s ident token expire) = Some err
      \<and> executed (snd (SetUserAPIToken s ident token expire))
          = executed s @ [UPDATE_apitoken token expire ident]
      \<and> apitoken (snd (SetUserAPIToken s ident token expire)) = apitoken s)
   \<and> (update_error s expire ident = None \<and> rowsAffected_error s = Some err \<longrightarrow>
      fst (SetUserAPIToken s ident token expire) = Some err
      \<and> executed (snd (SetUserAPIToken s ident token expire))
          = executed s @ [UPDATE_apitoken token expire ident])
   \<and> (update_error s expire ident = None \<and> rowsAffected_error s = None
      \<and> insert_error s expire = None \<longrightarrow>
      fst (SetUserAPIToken s ident token expire) = None)
   \<and> ((\<exists>ar s1. updateAPIToken_Exec s token expire ident = (Inr (Inr ar), s1) \<and> 1 \<le> ar) \<longrightarrow>
      fst (SetUserAPIToken s ident token expire) = None
      \<and> executed (snd (SetUserAPIToken s ident token expire))
          = executed s @ [UPDATE_apitoken token expire ident])"
  by (auto simp: SetUserAPIToken_cases updateAPIToken_Exec_cases Let_def split: option.splits)

theorem SetUserAPIToken_error_flow_witness:
  "fst (SetUserAPIToken (mysql1\<lparr>update_failure := Some (errorString ''gone away'')\<rparr>) ''alice'' ''tok'' t2019')
     = Some (errorString ''gone away'')
   \<and> fst (SetUserAPIToken mysql1 ''alice'' ''tok'' t2100) = Some (Incorrect_datetime_value t2100)
   \<and> fst (SetUserAPIToken (mysql1\<lparr>rowsAffected_error := Some (errorString ''no count'')\<rparr>) ''alice'' ''tok'' t2019')
     = Some (errorString ''no count'')
   \<and> fst (SetUserAPIToken mysql1 ''carol'' ''c'' t2019') = None
   \<and> fst (SetUserAPIToken mysql1 ''alice'' ''tok'' t2019') = None"
proof -
  let ?e1 = "errorString ''gone away''" and ?e2 = "errorString ''no count''"
  let ?e3 = "Incorrect_datetime_value t2100"
  have h1: "update_error (mysql1\<lparr>update_failure := Some ?e1\<rparr>) t2019' ''alice'' = Some ?e1"
    by (simp add: update_error_def)
  have h1': "update_error mysql1 t2100 ''alice'' = Some ?e3"
    by (simp add: column_defs mysql1_def mysql0_def t2100_def)
  have h2: "update_error (mysql1\<lparr>rowsAffected_error := Some ?e2\<rparr>) t2019' ''alice'' = None
      \<and> rowsAffected_error (mysql1\<lparr>rowsAffected_error := Some ?e2\<rparr>) = Some ?e2"
    by (simp add: column_defs mysql1_def mysql0_def t2019'_def)
  have h3: "update_error mysql1 t2019' ''carol'' = None \<and> rowsAffected_error mysql1 = None
      \<and> insert_error mysql1 t2019' = None"
    by (simp add: column_defs mysql1_def mysql0_def t2019'_def)
  have h4: "\<exists>ar s1. updateAPIToken_Exec mysql1 ''tok'' t2019' ''alice'' = (Inr (Inr ar), s1) \<and> 1 \<le> ar"
    by (simp add: updateAPIToken_Exec_def column_defs Let_def mysql1_def mysql0_def t2019_def t2019'_def)
  have g1: "fst (SetUserAPIToken (mysql1\<lparr>update_failure := Some ?e1\<rparr>) ''alice'' ''tok'' t2019') = Some ?e1"
    using SetUserAPIToken_error_flow [of "mysql1\<lparr>update_failure := Some ?e1\<rparr>" "t2019'" "''alice''" ?e1 "''tok''"] h1
    by blast
  have g2: "fst (SetUserAPIToken mysql1 ''alice'' ''tok'' t2100) = Some ?e3"
    using SetUserAPIToken_error_flow [of mysql1 t2100 "''alice''" ?e3 "''tok''"] h1'
    by blast
  have g3: "fst (SetUserAPIToken (mysql1\<lparr>rowsAffected_error := Some ?e2\<rparr>) ''alice'' ''tok'' t2019') = Some ?e2"
    using SetUserAPIToken_error_flow [of "mysql1\<lparr>rowsAffected_error := Some ?e2\<rparr>" "t2019'" "''alice''" ?e2 "''tok''"] h2
    by blast
  have g4: "fst (SetUserAPIToken mysql1 ''carol'' ''c'' t2019') = None"
    using SetUserAPIToken_error_flow [of mysql1 "t2019'" "''carol''" ?e1 "''c''"] h3
    by blast
  have g5: "fst (SetUserAPIToken mysql1 ''alice'' ''tok'' t2019') = None"
    using SetUserAPIToken_error_flow [of mysql1 "t2019'" "''alice''" ?e1 "''tok''"] h4
    by blast
  show ?thesis
    using g1 g2 g3 g4 g5 by simp
qed

text \<open>
  Claim C4 as stated has the call fail exactly when both the UPDATE and the fallback
  INSERT fail. Here the UPDATE fails on a connection whose INSERT would succeed: the call
  fails with the UPDATE's error, and the INSERT is never executed.
\<close>

theorem SetUserAPIToken_fails_on_update_alone:
  "fst (SetUserAPIToken (mysql1\<lparr>update_failure := Some (errorString ''gone away'')\<rparr>) ''alice'' ''tok'' t2019')
     = Some (errorString ''gone away'')
   \<and> insert_error (mysql1\<lparr>update_failure := Some (errorString ''gone away'')\<rparr>) t2019' = None
   \<and> executed (snd (SetUserAPIToken (mysql1\<lparr>update_failure := Some (errorString ''gone away'')\<rparr>) ''alice'' ''tok'' t2019'))
     = [UPDATE_apitoken ''tok'' t2019' ''alice'']"
  by (simp add: Set_defs column_defs mysql1_def mysql0_def t2019_def t2019'_def)

text \<open>
  Beyond the claims: when no statement fails, every row the identity owns holds the token
  and the expiry that were set, the expiry in the whole seconds that the column keeps, and
  there is such a row. The table keeps what \<open>GetUserAPIToken\<close> fails to read back.
\<close>

theorem SetUserAPIToken_stores_token_and_expire:
  assumes "update_error s expire ident = None" and "rowsAffected_error s = None"
    and "insert_error s expire = None"
  shows "filter (\<lambda>r. col_ident r = ident) (apitoken (snd (SetUserAPIToken s ident token expire)))
           \<noteq> []
    \<and> list_all (\<lambda>r. col_token r = token \<and> col_expire r = TIMESTAMP_round s expire)
          (filter (\<lambda>r. col_ident r = ident) (apitoken (snd (SetUserAPIToken s ident token expire))))"
proof -
  have u: "list_all (\<lambda>r. col_token r = token \<and> col_expire r = v)
      (filter (\<lambda>r. col_ident r = ident) (map (update_row ident token v) rows))" for rows v
    by (induction rows) (auto simp: update_row_def)
  have "list_all (\<lambda>r. col_token r = token \<and> col_expire r = TIMESTAMP_round s expire)
          (filter (\<lambda>r. col_ident r = ident) (apitoken (snd (SetUserAPIToken s ident token expire))))"
    using assms u [of "TIMESTAMP_round s expire" "apitoken s"]
    by (simp add: SetUserAPIToken_cases Let_def)
  then show ?thesis
    using SetUserAPIToken_stores_row [OF assms] by simp
qed

theorem SetUserAPIToken_stores_token_and_expire_witness:
  "filter (\<lambda>r. col_ident r = ''alice'')
      (apitoken (snd (SetUserAPIToken mysql1 ''alice'' ''tok'' (t2019' + 600000000))))
     = [\<lparr>col_ident = ''alice'', col_token = ''tok'', col_expire = t2019' + 1000000000\<rparr>]"
proof -
  let ?t = "t2019' + 600000000"
  have ok: "update_error mysql1 ?t ''alice'' = None" "rowsAffected_error mysql1 = None"
    "insert_error mysql1 ?t = None"
    by (simp_all add: column_defs mysql1_def mysql0_def t2019'_def)
  have "filter (\<lambda>r. col_ident r = ''alice'') (apitoken (snd (SetUserAPIToken mysql1 ''alice'' ''tok'' ?t)))
     = [\<lparr>col_ident = ''alice'', col_token = ''tok'', col_expire = t2019' + 1000000000\<rparr>]"
    by (simp add: Set_defs column_defs mysql1_def mysql0_def t2019_def t2019'_def)
  then show ?thesis
    using SetUserAPIToken_stores_token_and_expire [OF ok, of "''tok''"]
    by simp
qed

section \<open>Properties of \<open>GetVPlans\<close> and its handler\<close>

lemma Concat_None_iff: "Concat m = None \<longleftrightarrow> m = []"
  by (simp add: Concat_def)

lemma scan_vplans_eq:
  "scan_vplans rows vplans mErr = (vplans @ map new_VPlan (scanned rows), mErr @ failures rows)"
proof (induction rows arbitrary: vplans mErr)
  case Nil
  then show ?case by simp
next
  case (Cons row rows)
  then show ?case
    by (cases row) (simp_all add: Let_def scan_error_def Append_def)
qed

lemma scan_entries_eq:
  "scan_entries rows v mErr = (v\<lparr>Entries := Entries v @ scanned rows\<rparr>, mErr @ failures rows)"
proof (induction rows arbitrary: v mErr)
  case Nil
  then show ?case by simp
next
  case (Cons row rows)
  then show ?case
    by (cases row) (simp_all add: Let_def scan_error_def Append_def)
qed

lemma collect_entries_eq:
  "collect_entries q class vs mErr =
     (map (with_entries q class) vs, mErr @ concat (map (entry_failures q class) vs))"
proof (induction vs arbitrary: mErr)
  case Nil
  then show ?case by simp
next
  case (Cons v vs)
  show ?case
  proof (cases "entries_query q class v")
    case (Inl err)
    then show ?thesis
      using Cons.IH
      by (simp add: Let_def with_entries_def entry_failures_def entries_query_def
          scan_error_def Append_def)
  next
    case (Inr rows)
    then show ?thesis
      using Cons.IH
      by (simp add: Let_def with_entries_def entry_failures_def entries_query_def
          scan_error_def Append_def scan_entries_eq)
  qed
qed

lemma GetVPlans_eq:
  assumes "selectVPlans_Query (queries s) timestamp = Inr rows"
  shows "GetVPlans s class timestamp =
     (map (with_entries (queries s) class) (map new_VPlan (scanned rows)),
      Concat (failures rows
              @ concat (map (entry_failures (queries s) class) (map new_VPlan (scanned rows)))))"
  using assms
  by (simp add: GetVPlans_def scan_vplans_eq collect_entries_eq NewMultiError_def)

lemma handlerAPIGetVPlan_eq:
  assumes "limiter_Check srv ''getVPlan'' r" and "fst (reqAuth_Check srv w r) \<noteq> []"
    and "(Query_Get r ''time'' = [] \<and> t = time_Now srv)
         \<or> (Query_Get r ''time'' \<noteq> [] \<and> time_Parse_RFC3339 srv (Query_Get r ''time'') = (t, None))"
  shows "handlerAPIGetVPlan srv w r =
     (case snd (GetVPlans (db srv) (Query_Get r ''class'') t) of
        Some e \<Rightarrow> jsonResponse (snd (reqAuth_Check srv w r)) 500 (apiError 500 (Error e))
      | None \<Rightarrow> jsonResponse (snd (reqAuth_Check srv w r)) 200 (data (fst (GetVPlans (db srv) (Query_Get r ''class'') t))))"
  using assms
  by (auto simp: handlerAPIGetVPlan_def Let_def split: prod.splits option.splits)

text \<open>
  Claim C2, as amended. When the query for the plans succeeds, \<open>GetVPlans\<close> returns the
  plans of the rows that scan, in order, each with the entries that scan (none when the
  query for its entries fails); every scan failure and every failed query for entries is
  appended to the aggregate error, which is nil exactly when there was none; and the
  handler, for a request that passes the limiter and \<open>reqAuth.Check\<close> and whose time is absent or
  parses, answers a non-nil error with status 500 and its message, and sends the plans
  only with a nil error.
\<close>

theorem GetVPlans_skips_rows_and_reports:
  assumes "selectVPlans_Query (queries (db srv)) t = Inr rows"
    and "limiter_Check srv ''getVPlan'' r" and "fst (reqAuth_Check srv w r) \<noteq> []"
    and "(Query_Get r ''time'' = [] \<and> t = time_Now srv)
         \<or> (Query_Get r ''time'' \<noteq> [] \<and> time_Parse_RFC3339 srv (Query_Get r ''time'') = (t, None))"
    and "Query_Get r ''class'' = class"
  shows "fst (GetVPlans (db srv) class t)
           = map (with_entries (queries (db srv)) class) (map new_VPlan (scanned rows))
    \<and> snd (GetVPlans (db srv) class t)
           = Concat (failures rows @ concat (map (entry_failures (queries (db srv)) class)
                                                 (map new_VPlan (scanned rows))))
    \<and> (snd (GetVPlans (db srv) class t) = None
         \<longleftrightarrow> failures rows = []
             \<and> concat (map (entry_failures (queries (db srv)) class) (map new_VPlan (scanned rows))) = [])
    \<and> handlerAPIGetVPlan srv w r =
         (case snd (GetVPlans (db srv) class t) of
            Some e \<Rightarrow> jsonResponse (snd (reqAuth_Check srv w r)) 500 (apiError 500 (Error e))
          | None \<Rightarrow> jsonResponse (snd (reqAuth_Check srv w r)) 200 (data (fst (GetVPlans (db srv) class t))))"
proof -
  have h: "handlerAPIGetVPlan srv w r =
         (case snd (GetVPlans (db srv) class t) of
            Some e \<Rightarrow> jsonResponse (snd (reqAuth_Check srv w r)) 500 (apiError 500 (Error e))
          | None \<Rightarrow> jsonResponse (snd (reqAuth_Check srv w r)) 200 (data (fst (GetVPlans (db srv) class t))))"
    using handlerAPIGetVPlan_eq [OF assms(2,3,4)] unfolding assms(5) .
  have g: "GetVPlans (db srv) class t =
     (map (with_entries (queries (db srv)) class) (map new_VPlan (scanned rows)),
      Concat (failures rows @ concat (map (entry_failures (queries (db srv)) class)
                                          (map new_VPlan (scanned rows)))))"
    by (rule GetVPlans_eq [OF assms(1)])
  have n: "snd (GetVPlans (db srv) class t) = None
         \<longleftrightarrow> failures rows = []
             \<and> concat (map (entry_failures (queries (db srv)) class) (map new_VPlan (scanned rows))) = []"
    unfolding g by (simp only: snd_conv Concat_None_iff append_is_Nil_conv)
  show ?thesis
    using h n unfolding g by (simp only: fst_conv snd_conv simp_thms)
qed

lemma new_VPlan_columns1:
  "new_VPlan columns1 = \<lparr>ID = 1, DateEdit = t2019, DateFor = t2019', Block = 0, Header = ''h'',
      Footer = ''f'', Entries = []\<rparr>"
  by code_simp

theorem GetVPlans_skips_rows_and_reports_witness:
  "fst (GetVPlans (db server0) [] (time_Now server0))
     = [\<lparr>ID = 1, DateEdit = t2019, DateFor = t2019', Block = 0, Header = ''h'', Footer = ''f'',
         Entries = [entry1]\<rparr>]
   \<and> snd (GetVPlans (db server0) [] (time_Now server0)) = Some (errorString (''bad row'' @ [CHR 0x0A]))
   \<and> handlerAPIGetVPlan server0 new_ResponseWriter (request0 0)
     = jsonResponse new_ResponseWriter 500 (apiError 500 (''bad row'' @ [CHR 0x0A]))"
proof -
  have q: "selectVPlans_Query (queries (db server0)) (time_Now server0)
      = Inr [Inr columns1, Inl (errorString ''bad row'')]"
    by (simp add: server0_def mysql0_def queries1_def)
  have l: "limiter_Check server0 ''getVPlan'' (request0 0)" by (simp add: server0_def)
  have a: "fst (reqAuth_Check server0 new_ResponseWriter (request0 0)) \<noteq> []" by (simp add: server0_def)
  have a': "snd (reqAuth_Check server0 new_ResponseWriter (request0 0)) = new_ResponseWriter"
    by (simp add: server0_def)
  have t: "(Query_Get (request0 0) ''time'' = [] \<and> time_Now server0 = time_Now server0)
      \<or> (Query_Get (request0 0) ''time'' \<noteq> []
          \<and> time_Parse_RFC3339 server0 (Query_Get (request0 0) ''time'') = (time_Now server0, None))"
    by (simp add: Query_Get_def request0_def)
  have c: "Query_Get (request0 0) ''class'' = []" by (simp add: Query_Get_def request0_def)
  have w: "with_entries (queries (db server0)) [] (new_VPlan columns1)
      = \<lparr>ID = 1, DateEdit = t2019, DateFor = t2019', Block = 0, Header = ''h'', Footer = ''f'',
         Entries = [entry1]\<rparr>"
    by (simp add: new_VPlan_columns1 with_entries_def entries_query_def server0_def mysql0_def
        queries1_def)
  have f: "entry_failures (queries (db server0)) [] (new_VPlan columns1) = []"
    by (simp add: new_VPlan_columns1 entry_failures_def entries_query_def server0_def mysql0_def
        queries1_def)
  show ?thesis
    using GetVPlans_skips_rows_and_reports [OF q l a t c]
    by (simp add: w f a' Concat_def)
qed

text \<open>
  Claim C2 as stated has a row that fails to scan skipped without aborting the response.
  Here the second of two plan rows fails to scan: \<open>GetVPlans\<close> still returns the first
  plan with its entry, but the handler answers 500 with the aggregate error and no plan.
\<close>

theorem handlerAPIGetVPlan_aborts_on_one_bad_row:
  "fst (GetVPlans (db server0) [] (time_Now server0))
     = [\<lparr>ID = 1, DateEdit = t2019, DateFor = t2019', Block = 0, Header = ''h'', Footer = ''f'',
         Entries = [entry1]\<rparr>]
   \<and> status (handlerAPIGetVPlan server0 new_ResponseWriter (request0 0)) = 500
   \<and> body (handlerAPIGetVPlan server0 new_ResponseWriter (request0 0)) = Some (apiError 500 (''bad row'' @ [CHR 0x0A]))"
proof -
  have q: "selectVPlans_Query (queries (db server0)) (time_Now server0)
      = Inr [Inr columns1, Inl (errorString ''bad row'')]"
    by (simp add: server0_def mysql0_def queries1_def)
  have l: "limiter_Check server0 ''getVPlan'' (request0 0)" by (simp add: server0_def)
  have a: "fst (reqAuth_Check server0 new_ResponseWriter (request0 0)) \<noteq> []" by (simp add: server0_def)
  have a': "snd (reqAuth_Check server0 new_ResponseWriter (request0 0)) = new_ResponseWriter"
    by (simp add: server0_def)
  have t: "(Query_Get (request0 0) ''time'' = [] \<and> time_Now server0 = time_Now server0)
      \<or> (Query_Get (request0 0) ''time'' \<noteq> []
          \<and> time_Parse_RFC3339 server0 (Query_Get (request0 0) ''time'') = (time_Now server0, None))"
    by (simp add: Query_Get_def request0_def)
  have c: "Query_Get (request0 0) ''class'' = []" by (simp add: Query_Get_def request0_def)
  have w: "with_entries (queries (db server0)) [] (new_VPlan columns1)
      = \<lparr>ID = 1, DateEdit = t2019, DateFor = t2019', Block = 0, Header = ''h'', Footer = ''f'',
         Entries = [entry1]\<rparr>"
    by (simp add: new_VPlan_columns1 with_entries_def entries_query_def server0_def mysql0_def
        queries1_def)
  have f: "entry_failures (queries (db server0)) [] (new_VPlan columns1) = []"
    by (simp add: new_VPlan_columns1 entry_failures_def entries_query_def server0_def mysql0_def
        queries1_def)
  have g: "GetVPlans (db server0) [] (time_Now server0)
      = ([\<lparr>ID = 1, DateEdit = t2019, DateFor = t2019', Block = 0, Header = ''h'', Footer = ''f'',
           Entries = [entry1]\<rparr>], Some (errorString (''bad row'' @ [CHR 0x0A])))"
    by (simp add: GetVPlans_eq [OF q] w f Concat_def)
  show ?thesis
    using handlerAPIGetVPlan_eq [OF l a t] c g
    by (simp add: a' jsonResponse_def new_ResponseWriter_def)
qed

section \<open>Properties of the login handler\<close>

lemma handlerAPIAuthenticate_authenticated:
  assumes "limiter_Check s ''authenticate'' r"
    and "Vars r ''username'' = Some uname"
    and "Body r = Inr reqData"
    and "Password reqData \<noteq> []"
    and "authProvider_Authenticate s uname (Group reqData) (Password reqData) = (authData, None)"
  shows "handlerAPIAuthenticate s w r =
     Inr (if Session reqData > 0
          then session_branch s w r reqData
                 (case authData of None \<Rightarrow> \<lparr>Ident = [], Ctx = None\<rparr> | Some a \<Rightarrow> a)
          else token_branch s w
                 (case authData of None \<Rightarrow> \<lparr>Ident = [], Ctx = None\<rparr> | Some a \<Rightarrow> a))"
  using assms
  by (cases authData) (simp_all add: handlerAPIAuthenticate_def lookup_ok_def deref_def Let_def)

lemma handlerAPIAuthenticate_no_panic: "handlerAPIAuthenticate s w r \<noteq> Inl p"
  by (auto simp: handlerAPIAuthenticate_def lookup_ok_def deref_def Let_def
      split: option.splits sum.splits prod.splits if_splits)

lemma token_branch_ok:
  assumes "tokenManager_Set s (Ident a) = (token, expire, None)"
  shows "token_branch s w a =
     (jsonResponse w 200 (authTokenResposeData (Ident a) (Ctx a) token expire),
      [tokenManager_Set_call (Ident a)])"
  using assms by (simp add: token_branch_def)

lemma token_branch_calls:
  "snd (token_branch s w a) = [tokenManager_Set_call (Ident a)]
   \<and> Set_Cookie (fst (token_branch s w a)) = Set_Cookie w"
  by (simp add: token_branch_def jsonResponse_def split: prod.splits option.splits)

text \<open>
  Claim C7. After a successful authentication the mode \<open>session\<close> of the request selects
  the answer. With 0 the token manager issues a token and the body is the identity, the
  context, the token and its expiry, the cookie header untouched. With 1 the session is
  saved with the identity and the max-age the store gave it, and the body is the identity
  and the context beside the \<open>Set-Cookie\<close> header. Above 1 the same, with the max-age
  replaced by the configured \<open>RememberMaxAge\<close>.
\<close>

theorem handlerAPIAuthenticate_session_modes:
  fixes s r reqData a
  defines "session1 \<equiv>
      (store_Get s r (MainSessionName s))
        \<lparr>Values := (Values (store_Get s r (MainSessionName s)))(''ident'' \<mapsto> Ident a)\<rparr>"
  assumes "limiter_Check s ''authenticate'' r"
    and "Vars r ''username'' = Some uname"
    and "Body r = Inr reqData"
    and "Password reqData \<noteq> []"
    and "authProvider_Authenticate s uname (Group reqData) (Password reqData) = (Some a, None)"
  shows "(Session reqData = 0 \<and> tokenManager_Set s (Ident a) = (token, expire, None) \<longrightarrow>
            handlerAPIAuthenticate s w r =
              Inr (w\<lparr>status := 200,
                     body := Some (authTokenResposeData (Ident a) (Ctx a) token expire)\<rparr>,
                   [tokenManager_Set_call (Ident a)]))
    \<and> (Session reqData = 1 \<and> session_Save s session1 = None \<longrightarrow>
            handlerAPIAuthenticate s w r =
              Inr (w\<lparr>status := 200, body := Some (authResponseData (Ident a) (Ctx a)),
                     Set_Cookie := Some session1\<rparr>,
                   [session_Save_call session1])
            \<and> MaxAge session1 = MaxAge (store_Get s r (MainSessionName s)))
    \<and> (Session reqData > 1 \<and> session_Save s (session1\<lparr>MaxAge := RememberMaxAge s\<rparr>) = None \<longrightarrow>
            handlerAPIAuthenticate s w r =
              Inr (w\<lparr>status := 200, body := Some (authResponseData (Ident a) (Ctx a)),
                     Set_Cookie := Some (session1\<lparr>MaxAge := RememberMaxAge s\<rparr>)\<rparr>,
                   [session_Save_call (session1\<lparr>MaxAge := RememberMaxAge s\<rparr>)])
            \<and> MaxAge (session1\<lparr>MaxAge := RememberMaxAge s\<rparr>) = RememberMaxAge s)"
  unfolding session1_def
  using handlerAPIAuthenticate_authenticated [OF assms(2-6), of w]
  by (auto simp: session_branch_def Save_def token_branch_def jsonResponse_def Let_def)

text \<open>
  Claim C9. The handler never dereferences a nil response. When the provider returns a nil
  response with a nil error, the handler goes on exactly as for an empty
  \<open>auth.Response\<close>, and an answer with status 200 carries an empty identity and a nil
  context.
\<close>

theorem handlerAPIAuthenticate_nil_response:
  "handlerAPIAuthenticate s w r \<noteq> Inl nil_pointer_dereference
   \<and> (limiter_Check s ''authenticate'' r \<and> Vars r ''username'' = Some uname
        \<and> Body r = Inr reqData \<and> Password reqData \<noteq> []
        \<and> authProvider_Authenticate s uname (Group reqData) (Password reqData) = (None, None)
      \<longrightarrow> handlerAPIAuthenticate s w r =
            Inr (if Session reqData > 0
                 then session_branch s w r reqData \<lparr>Ident = [], Ctx = None\<rparr>
                 else token_branch s w \<lparr>Ident = [], Ctx = None\<rparr>)
          \<and> (\<forall>w' c. handlerAPIAuthenticate s w r = Inr (w', c) \<and> status w' = 200
                 \<longrightarrow> map_option ident_ctx (body w') = Some (Some ([], None))))"
proof -
  have branches: "status (fst (session_branch s w r reqData \<lparr>Ident = [], Ctx = None\<rparr>)) = 200
      \<longrightarrow> map_option ident_ctx (body (fst (session_branch s w r reqData \<lparr>Ident = [], Ctx = None\<rparr>)))
            = Some (Some ([], None))"
    "status (fst (token_branch s w \<lparr>Ident = [], Ctx = None\<rparr>)) = 200
      \<longrightarrow> map_option ident_ctx (body (fst (token_branch s w \<lparr>Ident = [], Ctx = None\<rparr>)))
            = Some (Some ([], None))"
    by (auto simp: session_branch_def Save_def token_branch_def jsonResponse_def ident_ctx_def
        Let_def split: option.splits prod.splits)
  show ?thesis
    using handlerAPIAuthenticate_no_panic [of s w r nil_pointer_dereference]
      handlerAPIAuthenticate_authenticated [of s r uname reqData None w] branches
    by (auto split: if_splits)
qed

text \<open>
  Claim C10. For every mode \<open>session\<close> that is zero or negative, an authenticated login
  takes the token branch: the token manager is called with the identity, no session is
  saved and the cookie header is left as it was, and a token that is issued is answered
  with status 200.
\<close>

theorem handlerAPIAuthenticate_token_for_nonpositive_session:
  assumes "limiter_Check s ''authenticate'' r"
    and "Vars r ''username'' = Some uname"
    and "Body r = Inr reqData"
    and "Password reqData \<noteq> []"
    and "authProvider_Authenticate s uname (Group reqData) (Password reqData) = (Some a, None)"
    and "Session reqData \<le> 0"
  shows "\<exists>w'. handlerAPIAuthenticate s w r = Inr (w', [tokenManager_Set_call (Ident a)])
           \<and> Set_Cookie w' = Set_Cookie w
           \<and> (\<forall>token expire. tokenManager_Set s (Ident a) = (token, expire, None) \<longrightarrow>
                 w' = jsonResponse w 200 (authTokenResposeData (Ident a) (Ctx a) token expire))"
proof -
  have "handlerAPIAuthenticate s w r = Inr (token_branch s w a)"
    using handlerAPIAuthenticate_authenticated [OF assms(1-5), of w] assms(6) by simp
  moreover have "token_branch s w a = (fst (token_branch s w a), [tokenManager_Set_call (Ident a)])"
    using token_branch_calls [of s w a] by (metis prod.collapse)
  ultimately show ?thesis
    using token_branch_calls [of s w a] token_branch_ok [of s a _ _ w]
    by (metis fst_conv)
qed

lemma sha256_test_passwd:
  "Sprintf_x (sha256_Sum256 (bytes_of ''testpasswd'')) = debug_ident"
  unfolding debug_ident_def by code_simp

lemma GetUserAPIToken_nil_error:
  assumes "GetUserAPIToken s ident = (tok, exp, None)"
  shows "tok = []"
proof (cases "Scan_string_int64 (selectAPITokenByIdent_QueryRow s ident)")
  case (Inl err)
  then show ?thesis using assms by (simp add: GetUserAPIToken_def)
next
  case (Inr p)
  then show ?thesis using assms
    by (cases p) (simp add: GetUserAPIToken_def time_Parse_string_of_int64)
qed

lemma SetUserAPIToken_nil:
  assumes "update_error s expire ident = None" and "rowsAffected_error s = None"
  shows "fst (SetUserAPIToken s ident token expire) = None"
  using assms
  by (simp add: SetUserAPIToken_cases Let_def)

lemma IssueOrRenew_fresh:
  assumes "update_error m (now tm + TTL tm) identity = None" and "rowsAffected_error m = None"
  shows "fst (IssueOrRenew tm m identity) = (fresh_token tm, now tm + TTL tm, None)"
proof -
  obtain tok exp err where g: "GetUserAPIToken m identity = (tok, exp, err)"
    by (cases "GetUserAPIToken m identity") auto
  have "\<not> (err = None \<and> tok \<noteq> [] \<and> now tm < exp)"
    using GetUserAPIToken_nil_error g by blast
  then show ?thesis
    using SetUserAPIToken_nil [OF assms, of "fresh_token tm"]
    by (auto simp: IssueOrRenew_def g Let_def split: prod.splits)
qed

lemma Authenticate_debug0:
  "Authenticate debug0 ''test'' ''passwd'' = (Some \<lparr>Ident = debug_ident, Ctx = None\<rparr>, None)"
  by (simp add: Authenticate_cases debug0_def Connect_def sha256_test_passwd)

lemma server0_facts:
  "limiter_Check server0 ''authenticate'' (request0 mode)"
  "Vars (request0 mode) ''username'' = Some ''test''"
  "Body (request0 mode) = Inr \<lparr>Password = ''passwd'', Group = [], Session = mode\<rparr>"
  "authProvider_Authenticate server0 ''test'' [] ''passwd''
     = (Some \<lparr>Ident = debug_ident, Ctx = None\<rparr>, None)"
  "tokenManager_Set server0 debug_ident
     = (''c29tZSByYW5kb20gYnl0ZXM'', t2019 + 3600000000000, None)"
  "store_Get server0 (request0 mode) (MainSessionName server0) = \<lparr>Values = Map.empty, MaxAge = 3600\<rparr>"
  "session_Save server0 session = None"
  "RememberMaxAge server0 = 2592000"
proof -
  have m: "update_error mysql0 (now manager0 + TTL manager0) debug_ident = None"
    "rowsAffected_error mysql0 = None"
    by (simp_all add: update_error_def mysql0_def)
  show "tokenManager_Set server0 debug_ident
     = (''c29tZSByYW5kb20gYnl0ZXM'', t2019 + 3600000000000, None)"
    using IssueOrRenew_fresh [OF m]
    by (simp add: server0_def manager0_def)
qed (simp_all add: server0_def request0_def Authenticate_debug0)

theorem handlerAPIAuthenticate_session_modes_witness:
  "handlerAPIAuthenticate server0 new_ResponseWriter (request0 0) =
     Inr (\<lparr>status = 200,
           body = Some (authTokenResposeData debug_ident None ''c29tZSByYW5kb20gYnl0ZXM''
                          (t2019 + 3600000000000)),
           Set_Cookie = None\<rparr>,
          [tokenManager_Set_call debug_ident])
   \<and> handlerAPIAuthenticate server0 new_ResponseWriter (request0 1) =
     Inr (\<lparr>status = 200, body = Some (authResponseData debug_ident None),
           Set_Cookie = Some \<lparr>Values = [''ident'' \<mapsto> debug_ident], MaxAge = 3600\<rparr>\<rparr>,
          [session_Save_call \<lparr>Values = [''ident'' \<mapsto> debug_ident], MaxAge = 3600\<rparr>])
   \<and> handlerAPIAuthenticate server0 new_ResponseWriter (request0 2) =
     Inr (\<lparr>status = 200, body = Some (authResponseData debug_ident None),
           Set_Cookie = Some \<lparr>Values = [''ident'' \<mapsto> debug_ident], MaxAge = 2592000\<rparr>\<rparr>,
          [session_Save_call \<lparr>Values = [''ident'' \<mapsto> debug_ident], MaxAge = 2592000\<rparr>])"
proof -
  let ?a = "\<lparr>Ident = debug_ident, Ctx = None\<rparr>"
  have pw: "Password \<lparr>Password = ''passwd'', Group = [], Session = mode\<rparr> \<noteq> []" for mode :: int
    by simp
  have au: "authProvider_Authenticate server0 ''test''
      (Group \<lparr>Password = ''passwd'', Group = [], Session = mode\<rparr>)
      (Password \<lparr>Password = ''passwd'', Group = [], Session = mode\<rparr>) = (Some ?a, None)" for mode :: int
    using server0_facts(4) by simp
  note m0 = handlerAPIAuthenticate_session_modes
      [OF server0_facts(1) server0_facts(2) server0_facts(3) pw au,
        of 0 "''c29tZSByYW5kb20gYnl0ZXM''" "t2019 + 3600000000000" new_ResponseWriter]
  note m1 = handlerAPIAuthenticate_session_modes
      [OF server0_facts(1) server0_facts(2) server0_facts(3) pw au,
        of 1 "''c29tZSByYW5kb20gYnl0ZXM''" "t2019 + 3600000000000" new_ResponseWriter]
  note m2 = handlerAPIAuthenticate_session_modes
      [OF server0_facts(1) server0_facts(2) server0_facts(3) pw au,
        of 2 "''c29tZSByYW5kb20gYnl0ZXM''" "t2019 + 3600000000000" new_ResponseWriter]
  show ?thesis
    using m0 m1 m2 by (simp add: server0_facts new_ResponseWriter_def)
qed

theorem handlerAPIAuthenticate_nil_response_witness:
  "handlerAPIAuthenticate
     (server0\<lparr>authProvider_Authenticate := (\<lambda>username group password. (None, None))\<rparr>)
     new_ResponseWriter (request0 1)
     = Inr (\<lparr>status = 200, body = Some (authResponseData [] None),
             Set_Cookie = Some \<lparr>Values = [''ident'' \<mapsto> []], MaxAge = 3600\<rparr>\<rparr>,
            [session_Save_call \<lparr>Values = [''ident'' \<mapsto> []], MaxAge = 3600\<rparr>])"
proof -
  let ?s = "server0\<lparr>authProvider_Authenticate := (\<lambda>username group password. (None, None))\<rparr>"
  let ?d = "\<lparr>Password = ''passwd'', Group = [], Session = 1\<rparr>"
  have pre: "limiter_Check ?s ''authenticate'' (request0 1) \<and> Vars (request0 1) ''username'' = Some ''test''
        \<and> Body (request0 1) = Inr ?d \<and> Password ?d \<noteq> []
        \<and> authProvider_Authenticate ?s ''test'' (Group ?d) (Password ?d) = (None, None)"
    by (simp add: server0_def request0_def)
  have sb: "session_branch ?s new_ResponseWriter (request0 1) ?d \<lparr>Ident = [], Ctx = None\<rparr>
     = (\<lparr>status = 200, body = Some (authResponseData [] None),
             Set_Cookie = Some \<lparr>Values = [''ident'' \<mapsto> []], MaxAge = 3600\<rparr>\<rparr>,
            [session_Save_call \<lparr>Values = [''ident'' \<mapsto> []], MaxAge = 3600\<rparr>])"
    by (simp add: session_branch_def Save_def server0_def jsonResponse_def Let_def
        new_ResponseWriter_def)
  show ?thesis
    using handlerAPIAuthenticate_nil_response [of ?s new_ResponseWriter "request0 1" "''test''" ?d]
      pre sb
    by simp
qed

theorem handlerAPIAuthenticate_token_for_nonpositive_session_witness:
  "handlerAPIAuthenticate server0 new_ResponseWriter (request0 (- 3)) =
     Inr (jsonResponse new_ResponseWriter 200
            (authTokenResposeData debug_ident None ''c29tZSByYW5kb20gYnl0ZXM'' (t2019 + 3600000000000)),
          [tokenManager_Set_call debug_ident])"
proof -
  let ?a = "\<lparr>Ident = debug_ident, Ctx = None\<rparr>"
  let ?d = "\<lparr>Password = ''passwd'', Group = [], Session = - 3\<rparr>"
  have pw: "Password ?d \<noteq> []" by simp
  have au: "authProvider_Authenticate server0 ''test'' (Group ?d) (Password ?d) = (Some ?a, None)"
    using server0_facts(4) by simp
  have neg: "Session ?d \<le> 0" by simp
  show ?thesis
    using handlerAPIAuthenticate_token_for_nonpositive_session
      [OF server0_facts(1) server0_facts(2) server0_facts(3) pw au neg, of new_ResponseWriter]
    by (auto simp: server0_facts)
qed

text \<open>
  Claim C6. The debug provider of the sources takes a user name and a password, so the
  group that the handler passes is dropped. With the debug provider connected and the
  token manager of section 4.2 over a store whose UPDATE succeeds, a login of \<open>test\<close> with
  \<open>passwd\<close> and \<open>session = 0\<close> is answered with status 200, an identity equal to the
  SHA-256 digest of \<open>testpasswd\<close> in lower-case hexadecimal digits, the fresh token, which
  is not empty when the generator's fixed length is not zero, and an expiry after the time
  of the call when the configured TTL is positive.
\<close>

theorem debug_login_issues_token:
  assumes "limiter_Check s ''authenticate'' r"
    and "Vars r ''username'' = Some ''test''"
    and "Body r = Inr reqData" and "Password reqData = ''passwd''" and "Session reqData = 0"
    and "authProvider_Authenticate s = (\<lambda>username group password. Authenticate d username password)"
    and "d = fst (Connect d0 options)"
    and "tokenManager_Set s = (\<lambda>ident. fst (IssueOrRenew tm m ident))"
    and "update_error m (now tm + TTL tm) debug_ident = None" and "rowsAffected_error m = None"
    and "fresh_token tm \<noteq> []" and "0 < TTL tm"
  shows "\<exists>token expire.
           handlerAPIAuthenticate s w r =
             Inr (w\<lparr>status := 200,
                    body := Some (authTokenResposeData debug_ident None token expire)\<rparr>,
                  [tokenManager_Set_call debug_ident])
           \<and> token \<noteq> [] \<and> now tm < expire
           \<and> debug_ident = Sprintf_x (sha256_Sum256 (bytes_of (''test'' @ ''passwd'')))"
proof -
  let ?a = "\<lparr>Ident = debug_ident, Ctx = None\<rparr>"
  have pw: "Password reqData \<noteq> []" using assms(4) by simp
  have au: "authProvider_Authenticate s ''test'' (Group reqData) (Password reqData) = (Some ?a, None)"
    by (simp add: assms(4,6,7) Authenticate_cases Connect_def sha256_test_passwd)
  have tm: "tokenManager_Set s (Ident ?a) = (fresh_token tm, now tm + TTL tm, None)"
    using IssueOrRenew_fresh [OF assms(9,10)] by (simp add: assms(8))
  have "handlerAPIAuthenticate s w r = Inr (token_branch s w ?a)"
    using handlerAPIAuthenticate_authenticated [OF assms(1,2,3) pw au, of w] assms(5) by simp
  then have "handlerAPIAuthenticate s w r =
      Inr (w\<lparr>status := 200,
             body := Some (authTokenResposeData debug_ident None (fresh_token tm) (now tm + TTL tm))\<rparr>,
           [tokenManager_Set_call debug_ident])"
    using token_branch_ok [OF tm, of w] by (simp add: jsonResponse_def)
  then show ?thesis
    using assms(11,12) sha256_test_passwd
    by (intro exI [where x = "fresh_token tm"] exI [where x = "now tm + TTL tm"]) simp
qed

theorem debug_login_issues_token_witness:
  "handlerAPIAuthenticate server0 new_ResponseWriter (request0 0) =
     Inr (\<lparr>status = 200,
           body = Some (authTokenResposeData debug_ident None ''c29tZSByYW5kb20gYnl0ZXM''
                          (t2019 + 3600000000000)),
           Set_Cookie = None\<rparr>,
          [tokenManager_Set_call debug_ident])
   \<and> t2019 < t2019 + 3600000000000"
proof -
  have b: "Body (request0 0) = Inr \<lparr>Password = ''passwd'', Group = [], Session = 0\<rparr>"
    by (rule server0_facts(3))
  have ap: "authProvider_Authenticate server0 = (\<lambda>username group password. Authenticate debug0 username password)"
    by (simp add: server0_def)
  have tm: "tokenManager_Set server0 = (\<lambda>ident. fst (IssueOrRenew manager0 mysql0 ident))"
    by (simp add: server0_def)
  have m: "update_error mysql0 (now manager0 + TTL manager0) debug_ident = None"
    "rowsAffected_error mysql0 = None"
    by (simp_all add: update_error_def mysql0_def)
  have f: "fresh_token manager0 \<noteq> []" "0 < TTL manager0"
    by (simp_all add: manager0_def)
  obtain token expire where
    h: "handlerAPIAuthenticate server0 new_ResponseWriter (request0 0) =
          Inr (new_ResponseWriter\<lparr>status := 200,
                 body := Some (authTokenResposeData debug_ident None token expire)\<rparr>,
               [tokenManager_Set_call debug_ident])"
    using debug_login_issues_token [OF server0_facts(1) server0_facts(2) b _ _ ap debug0_def tm m f,
        of new_ResponseWriter]
    by auto
  have "handlerAPIAuthenticate server0 new_ResponseWriter (request0 0)
      = Inr (token_branch server0 new_ResponseWriter \<lparr>Ident = debug_ident, Ctx = None\<rparr>)"
    using handlerAPIAuthenticate_authenticated [OF server0_facts(1) server0_facts(2) b,
        of "Some \<lparr>Ident = debug_ident, Ctx = None\<rparr>" new_ResponseWriter]
      server0_facts(4) by simp
  then show ?thesis
    using h server0_facts(5)
    by (simp add: token_branch_def jsonResponse_def new_ResponseWriter_def)
qed

text \<open>
  Beyond the claims: a login with an empty password is answered with status 400 before the
  provider is asked, and a login the provider refuses with status 401 and a blank message,
  whatever the provider's error; neither issues a token nor saves a session.
\<close>

theorem handlerAPIAuthenticate_rejections:
  assumes "limiter_Check s ''authenticate'' r"
    and "Vars r ''username'' = Some uname"
    and "Body r = Inr reqData"
  shows "(Password reqData = [] \<longrightarrow>
            handlerAPIAuthenticate s w r = Inr (jsonResponse w 400 (apiError 400 []), []))
    \<and> (Password reqData \<noteq> []
        \<and> authProvider_Authenticate s uname (Group reqData) (Password reqData) = (authData, Some err)
        \<longrightarrow> handlerAPIAuthenticate s w r = Inr (jsonResponse w 401 (apiError 401 []), []))"
  using assms
  by (simp add: handlerAPIAuthenticate_def lookup_ok_def Let_def)

theorem handlerAPIAuthenticate_rejections_witness:
  "handlerAPIAuthenticate server0 new_ResponseWriter
     ((request0 0)\<lparr>Body := Inr \<lparr>Password = [], Group = [], Session = 0\<rparr>\<rparr>)
     = Inr (jsonResponse new_ResponseWriter 400 (apiError 400 []), [])
   \<and> handlerAPIAuthenticate server0 new_ResponseWriter
     ((request0 0)\<lparr>Body := Inr \<lparr>Password = ''guess'', Group = [], Session = 0\<rparr>\<rparr>)
     = Inr (jsonResponse new_ResponseWriter 401 (apiError 401 []), [])"
proof -
  let ?r1 = "(request0 0)\<lparr>Body := Inr \<lparr>Password = [], Group = [], Session = 0\<rparr>\<rparr>"
  let ?r2 = "(request0 0)\<lparr>Body := Inr \<lparr>Password = ''guess'', Group = [], Session = 0\<rparr>\<rparr>"
  have l: "limiter_Check server0 ''authenticate'' r" for r by (simp add: server0_def)
  have v: "Vars ?r1 ''username'' = Some ''test''" "Vars ?r2 ''username'' = Some ''test''"
    by (simp_all add: request0_def)
  have b: "Body ?r1 = Inr \<lparr>Password = [], Group = [], Session = 0\<rparr>"
    "Body ?r2 = Inr \<lparr>Password = ''guess'', Group = [], Session = 0\<rparr>"
    by simp_all
  have au: "authProvider_Authenticate server0 ''test''
      (Group \<lparr>Password = ''guess'', Group = [], Session = 0\<rparr>)
      (Password \<lparr>Password = ''guess'', Group = [], Session = 0\<rparr>)
      = (None, Some (errors_New ''unauthorized''))"
    by (simp add: server0_def debug0_def Connect_def Authenticate_cases)
  show ?thesis
    using handlerAPIAuthenticate_rejections [OF l v(1) b(1),
        where w = new_ResponseWriter and authData = None and err = "errors_New ''unauthorized''"]
      handlerAPIAuthenticate_rejections [OF l v(2) b(2),
        where w = new_ResponseWriter and authData = None and err = "errors_New ''unauthorized''"] au
    by simp
qed

end
